theory Spec2Isabelle
  imports Complex_Main "HOL-Library.AList" "HOL-Library.Monad_Syntax"
begin

section \<open>Data model\<close>

text \<open>
  The converter of \<^verbatim>\<open>ply_converter.py\<close> orchestrates calls into the geometry
  libraries trimesh and Open3D. numpy's float arrays are idealised as lists of reals, a
  vertex array of shape (n, 3) is a list of triples, a face array a list of index
  triples (numpy indices are signed: a negative index counts from the end), and a colour
  array a list of channel rows.
\<close>

type_synonym vec3 = "real \<times> real \<times> real"
type_synonym face = "int \<times> int \<times> int"
type_synonym colour = "real list"

text \<open>A \<^verbatim>\<open>trimesh.Trimesh\<close>: \<open>vertex_colors = None\<close> stands for a visual without colours.\<close>

record mesh =
  vertices :: "vec3 list"
  faces :: "face list"
  vertex_colors :: "colour list option"

text \<open>An Open3D triangle mesh; \<open>o_vertex_colors = None\<close> is \<^verbatim>\<open>has_vertex_colors() == False\<close>.\<close>

record o3d_mesh =
  o_vertices :: "vec3 list"
  o_triangles :: "face list"
  o_vertex_colors :: "colour list option"

text \<open>An Open3D point cloud.\<close>

record pcd =
  points :: "vec3 list"
  pcd_colors :: "colour list option"
  normals :: "vec3 list"

text \<open>
  Exceptions: \<open>LibraryError\<close> is an exception raised inside a library routine,
  \<open>RuntimeError\<close> the one the converter raises itself, with its message.
\<close>

datatype error = LibraryError | RuntimeError string

subsection \<open>The geometry libraries\<close>

text \<open>
  Library routines are not part of the repository: they are parameters of the model. A
  routine that returns a value has an \<open>option\<close> result (\<open>None\<close>: it raised an exception).
  A trimesh routine that mutates the mesh in place returns the state of the mesh after the
  call together with a flag (\<open>False\<close>: it raised), so that the state a failed call leaves
  behind is part of the model.
\<close>

type_synonym mutator = "mesh \<Rightarrow> bool \<times> mesh"

record trimesh_lib =
  trimesh_new :: "vec3 list \<Rightarrow> face list \<Rightarrow> mesh option"
  fix_normals :: mutator
  unify_normals :: mutator
  face_normals :: "mesh \<Rightarrow> vec3 list option"
  remove_degenerate_faces :: mutator
  remove_duplicate_faces :: mutator
  remove_unreferenced_vertices :: mutator
  has_smoothed :: "mesh \<Rightarrow> bool"
  smoothed :: "mesh \<Rightarrow> mesh option"
  convex_hull :: "mesh \<Rightarrow> mesh option"
  creation_box :: "mesh option"
  export :: "mesh \<Rightarrow> string \<Rightarrow> bool"

record open3d_lib =
  make_point_cloud :: "vec3 list \<Rightarrow> colour list option \<Rightarrow> pcd option"
  estimate_normals :: "pcd \<Rightarrow> real \<Rightarrow> nat \<Rightarrow> pcd option"
  orient_normals_consistent_tangent_plane :: "pcd \<Rightarrow> nat \<Rightarrow> pcd option"
  orient_normals_to_align_with_direction :: "pcd \<Rightarrow> pcd option"
  create_from_point_cloud_poisson :: "pcd \<Rightarrow> nat \<Rightarrow> (o3d_mesh \<times> real list) option"
  remove_vertices_by_mask :: "o3d_mesh \<Rightarrow> bool list \<Rightarrow> o3d_mesh option"
  remove_duplicated_vertices :: "o3d_mesh \<Rightarrow> o3d_mesh option"
  remove_duplicated_triangles :: "o3d_mesh \<Rightarrow> o3d_mesh option"
  remove_degenerate_triangles :: "o3d_mesh \<Rightarrow> o3d_mesh option"
  o3d_remove_unreferenced_vertices :: "o3d_mesh \<Rightarrow> o3d_mesh option"
  filter_smooth_laplacian :: "o3d_mesh \<Rightarrow> nat \<Rightarrow> real \<Rightarrow> o3d_mesh option"

text \<open>
  The libraries as the converter sees them: \<open>has_open3d\<close> and \<open>has_scipy\<close> are the
  import flags \<^verbatim>\<open>HAS_OPEN3D\<close> and \<^verbatim>\<open>HAS_SCIPY\<close>, \<open>kdtree_query\<close> is scipy's
  nearest-neighbour query (the indices of the nearest points). \<open>trimesh_load\<close> and
  \<open>plyfile_read\<close> are the two parsers of \<^verbatim>\<open>load_ply_file\<close> with the extraction of
  vertices, faces and colours that follows each (\<open>None\<close>: that attempt raised);
  \<open>mkdir\<close> tells whether creating the output directory succeeds and \<open>path_exists\<close> is
  \<^verbatim>\<open>os.path.exists\<close>.
\<close>

type_synonym raw_ply = "vec3 list \<times> face list option \<times> colour list option"

record lib =
  has_open3d :: bool
  has_scipy :: bool
  tri :: trimesh_lib
  o3d :: open3d_lib
  kdtree_query :: "vec3 list \<Rightarrow> vec3 list \<Rightarrow> int list option"
  trimesh_load :: "string \<Rightarrow> raw_ply option"
  plyfile_read :: "string \<Rightarrow> raw_ply option"
  mkdir :: "string \<Rightarrow> bool"
  path_exists :: "string \<Rightarrow> bool"

section \<open>numpy helpers\<close>

definition np_mean :: "real list \<Rightarrow> real" where
  "np_mean xs = sum_list xs / real (length xs)"

definition np_std :: "real list \<Rightarrow> real" where
  "np_std xs = sqrt (np_mean (map (\<lambda>x. \<bar>x - np_mean xs\<bar> ^ 2) xs))"

text \<open>\<^verbatim>\<open>np.min\<close> and \<^verbatim>\<open>np.max\<close> of a flat array raise on an empty one.\<close>

fun np_min :: "real list \<Rightarrow> real option" where
  "np_min [] = None"
| "np_min (x # xs) = Some (fold min xs x)"

fun np_max :: "real list \<Rightarrow> real option" where
  "np_max [] = None"
| "np_max (x # xs) = Some (fold max xs x)"

text \<open>\<^verbatim>\<open>(a * 255).astype(np.uint8)\<close> on one channel: scale, truncate towards zero, wrap.\<close>

definition to_uint8 :: "real \<Rightarrow> real" where
  "to_uint8 x = of_int ((if 0 \<le> x * 255 then \<lfloor>x * 255\<rfloor> else - \<lfloor>- (x * 255)\<rfloor>) mod 256)"

text \<open>
  \<^verbatim>\<open>if c.max() <= 1.0: c = (c * 255).astype(np.uint8)\<close>, as the converter does before
  every colour assignment; \<open>None\<close> when \<^verbatim>\<open>max\<close> raises.
\<close>

definition expand_colors :: "colour list \<Rightarrow> colour list option" where
  "expand_colors cs =
     (case np_max (concat cs) of
        None \<Rightarrow> None
      | Some mx \<Rightarrow> Some (if mx \<le> 1 then map (map to_uint8) cs else cs))"

text \<open>Python list indexing: a negative index counts from the end, out of range raises.\<close>

definition py_index :: "'a list \<Rightarrow> int \<Rightarrow> 'a option" where
  "py_index xs i =
     (if 0 \<le> i \<and> i < int (length xs) then Some (xs ! nat i)
      else if i < 0 \<and> - int (length xs) \<le> i then Some (xs ! nat (int (length xs) + i))
      else None)"

text \<open>All of a list of optional results, or \<open>None\<close> when one of them raised.\<close>

fun all_some :: "'a option list \<Rightarrow> 'a list option" where
  "all_some [] = Some []"
| "all_some (None # xs) = None"
| "all_some (Some x # xs) = (case all_some xs of None \<Rightarrow> None | Some ys \<Rightarrow> Some (x # ys))"

section \<open>Poisson reconstruction\<close>

text \<open>
  The density filter of \<^verbatim>\<open>precise_poisson_reconstruction\<close>:
  \<^verbatim>\<open>thresh = max(mean_density - 2 * std_density, np.min(densities) * 1.1)\<close>, guarded by
  \<^verbatim>\<open>len(densities) > 0\<close>.
\<close>

definition density_threshold :: "real list \<Rightarrow> real" where
  "density_threshold ds =
     max (np_mean ds - 2 * np_std ds) (the (np_min ds) * (11 / 10))"

definition vertices_to_remove :: "real list \<Rightarrow> bool list" where
  "vertices_to_remove ds = map (\<lambda>d. d < density_threshold ds) ds"

definition density_filter :: "lib \<Rightarrow> o3d_mesh \<Rightarrow> real list \<Rightarrow> o3d_mesh option" where
  "density_filter l m ds =
     (if length ds > 0 then
        (let mask = vertices_to_remove ds;
             removed_count = length (filter id mask)
         in if removed_count > 0 then remove_vertices_by_mask (o3d l) m mask else Some m)
      else Some m)"

text \<open>\<^verbatim>\<open>depth_map.get(smoothing_level, 9)\<close>\<close>

definition depth_map :: "string \<Rightarrow> nat option" where
  "depth_map = [''light'' \<mapsto> 8, ''medium'' \<mapsto> 9, ''high'' \<mapsto> 10, ''ultra'' \<mapsto> 11]"

definition poisson_depth :: "string \<Rightarrow> nat" where
  "poisson_depth smoothing_level =
     (case depth_map smoothing_level of Some d \<Rightarrow> d | None \<Rightarrow> 9)"

text \<open>
  \<^verbatim>\<open>bbox = vertices.max(axis=0) - vertices.min(axis=0)\<close>,
  \<^verbatim>\<open>radius = max(np.linalg.norm(bbox) * 0.02, 0.001)\<close>; the reductions raise on an
  empty array.
\<close>

definition search_radius :: "vec3 list \<Rightarrow> real option" where
  "search_radius vs =
     (case vs of
        [] \<Rightarrow> None
      | _ \<Rightarrow>
        (let bx = the (np_max (map fst vs)) - the (np_min (map fst vs));
             by = the (np_max (map (fst \<circ> snd) vs)) - the (np_min (map (fst \<circ> snd) vs));
             bz = the (np_max (map (snd \<circ> snd) vs)) - the (np_min (map (snd \<circ> snd) vs))
         in Some (max (sqrt (bx ^ 2 + by ^ 2 + bz ^ 2) * (2 / 100)) (1 / 1000))))"

text \<open>
  The nested \<^verbatim>\<open>try\<close> around the normal orientation: the tangent-plane method, else the
  direction alignment, else the estimated normals as they are.
\<close>

definition orient_normals :: "lib \<Rightarrow> pcd \<Rightarrow> pcd" where
  "orient_normals l p =
     (case orient_normals_consistent_tangent_plane (o3d l) p 100 of
        Some p' \<Rightarrow> p'
      | None \<Rightarrow>
        (case orient_normals_to_align_with_direction (o3d l) p of
           Some p' \<Rightarrow> p'
         | None \<Rightarrow> p))"

text \<open>
  The extra Laplacian smoothing: only for \<^verbatim>\<open>'high'\<close> (1 iteration) and
  \<^verbatim>\<open>'ultra'\<close> (2 iterations).
\<close>

definition smoothing_iterations :: "string \<Rightarrow> nat option" where
  "smoothing_iterations = [''high'' \<mapsto> 1, ''ultra'' \<mapsto> 2]"

definition extra_smoothing :: "lib \<Rightarrow> o3d_mesh \<Rightarrow> string \<Rightarrow> o3d_mesh option" where
  "extra_smoothing l m smoothing_level =
     (if smoothing_level \<in> set [''high'', ''ultra''] then
        (let iterations = (case smoothing_iterations smoothing_level of Some n \<Rightarrow> n | None \<Rightarrow> 1)
         in filter_smooth_laplacian (o3d l) m iterations (2 / 10))
      else Some m)"

text \<open>The conversion of the Open3D mesh to a trimesh mesh, with the colour transfer.\<close>

definition to_trimesh :: "lib \<Rightarrow> o3d_mesh \<Rightarrow> mesh option option" where
  "to_trimesh l m =
     (let vertices_np = o_vertices m; faces_np = o_triangles m
      in if length vertices_np > 0 \<and> length faces_np > 0 then
           (case trimesh_new (tri l) vertices_np faces_np of
              None \<Rightarrow> None
            | Some tm \<Rightarrow>
              (case o_vertex_colors m of
                 None \<Rightarrow> Some (Some tm)
               | Some vc \<Rightarrow>
                 (case expand_colors vc of
                    None \<Rightarrow> None
                  | Some vc' \<Rightarrow> Some (Some (tm\<lparr>vertex_colors := Some vc'\<rparr>)))))
         else Some None)"

text \<open>
  The body of the \<^verbatim>\<open>try\<close> block of \<^verbatim>\<open>precise_poisson_reconstruction\<close>: the outer
  \<open>option\<close> is \<open>None\<close> when an exception was raised, the inner one is the value returned.
\<close>

definition poisson_body ::
    "lib \<Rightarrow> vec3 list \<Rightarrow> colour list option \<Rightarrow> string \<Rightarrow> mesh option option" where
  "poisson_body l vs colors smoothing_level = do {
     p0 \<leftarrow> make_point_cloud (o3d l) vs colors;
     radius \<leftarrow> search_radius vs;
     p1 \<leftarrow> estimate_normals (o3d l) p0 radius 30;
     let p2 = orient_normals l p1;
     let depth = poisson_depth smoothing_level;
     (m0, densities) \<leftarrow> create_from_point_cloud_poisson (o3d l) p2 depth;
     m1 \<leftarrow> density_filter l m0 densities;
     m2 \<leftarrow> remove_duplicated_vertices (o3d l) m1;
     m3 \<leftarrow> remove_duplicated_triangles (o3d l) m2;
     m4 \<leftarrow> remove_degenerate_triangles (o3d l) m3;
     m5 \<leftarrow> o3d_remove_unreferenced_vertices (o3d l) m4;
     m6 \<leftarrow> extra_smoothing l m5 smoothing_level;
     to_trimesh l m6
   }"

definition precise_poisson_reconstruction ::
    "lib \<Rightarrow> vec3 list \<Rightarrow> colour list option \<Rightarrow> string \<Rightarrow> mesh option" where
  "precise_poisson_reconstruction l vs colors smoothing_level =
     (if \<not> has_open3d l then None
      else (case poisson_body l vs colors smoothing_level of
              None \<Rightarrow> None
            | Some r \<Rightarrow> r))"

section \<open>Basic smoothing\<close>

definition iterations_map :: "string \<Rightarrow> nat option" where
  "iterations_map = [''light'' \<mapsto> 1, ''medium'' \<mapsto> 2, ''high'' \<mapsto> 3, ''ultra'' \<mapsto> 5]"

definition smooth_iterations :: "string \<Rightarrow> nat" where
  "smooth_iterations smoothing_level =
     (case iterations_map smoothing_level of Some n \<Rightarrow> n | None \<Rightarrow> 2)"

text \<open>
  The loop \<^verbatim>\<open>for i in range(iterations)\<close>: it stops at the first mesh without a
  \<^verbatim>\<open>smoothed\<close> attribute; \<open>None\<close> when \<^verbatim>\<open>smoothed()\<close> raised.
\<close>

fun smooth_loop :: "lib \<Rightarrow> nat \<Rightarrow> mesh \<Rightarrow> mesh option" where
  "smooth_loop l 0 m = Some m"
| "smooth_loop l (Suc n) m =
     (if has_smoothed (tri l) m then
        (case smoothed (tri l) m of None \<Rightarrow> None | Some m' \<Rightarrow> smooth_loop l n m')
      else Some m)"

definition smooth_mesh_basic :: "lib \<Rightarrow> mesh \<Rightarrow> string \<Rightarrow> mesh" where
  "smooth_mesh_basic l m smoothing_level =
     (case smooth_loop l (smooth_iterations smoothing_level) m of
        Some smoothed_mesh \<Rightarrow> smoothed_mesh
      | None \<Rightarrow> m)"

section \<open>Face orientation\<close>

subsection \<open>The outward ratio\<close>

definition vsub :: "vec3 \<Rightarrow> vec3 \<Rightarrow> vec3" where
  "vsub p q = (case (p, q) of ((a, b, c), (x, y, z)) \<Rightarrow> (a - x, b - y, c - z))"

definition vmul :: "vec3 \<Rightarrow> vec3 \<Rightarrow> vec3" where
  "vmul p q = (case (p, q) of ((a, b, c), (x, y, z)) \<Rightarrow> (a * x, b * y, c * z))"

definition vdiv :: "vec3 \<Rightarrow> real \<Rightarrow> vec3" where
  "vdiv p k = (case p of (a, b, c) \<Rightarrow> (a / k, b / k, c / k))"

definition vsum :: "vec3 \<Rightarrow> real" where
  "vsum p = (case p of (a, b, c) \<Rightarrow> a + b + c)"

definition vnorm :: "vec3 \<Rightarrow> real" where
  "vnorm p = (case p of (a, b, c) \<Rightarrow> sqrt (a ^ 2 + b ^ 2 + c ^ 2))"

text \<open>\<^verbatim>\<open>vertices.mean(axis=0)\<close>\<close>

definition mean_axis0 :: "vec3 list \<Rightarrow> vec3" where
  "mean_axis0 vs =
     (np_mean (map fst vs), np_mean (map (fst \<circ> snd) vs), np_mean (map (snd \<circ> snd) vs))"

text \<open>\<^verbatim>\<open>vertices[faces]\<close>: the three corners of every face; an index out of range raises.\<close>

definition face_corners :: "vec3 list \<Rightarrow> face \<Rightarrow> (vec3 \<times> vec3 \<times> vec3) option" where
  "face_corners vs f =
     (case f of (a, b, c) \<Rightarrow>
        (case (py_index vs a, py_index vs b, py_index vs c) of
           (Some p, Some q, Some r) \<Rightarrow> Some (p, q, r)
         | _ \<Rightarrow> None))"

definition index_faces :: "vec3 list \<Rightarrow> face list \<Rightarrow> (vec3 \<times> vec3 \<times> vec3) list option" where
  "index_faces vs fs = all_some (map (face_corners vs) fs)"

text \<open>\<^verbatim>\<open>.mean(axis=1)\<close> of one face: the centroid of its corners.\<close>

definition corner_mean :: "vec3 \<times> vec3 \<times> vec3 \<Rightarrow> vec3" where
  "corner_mean t =
     (case t of ((a, b, c), (d, e, f), (g, h, i)) \<Rightarrow>
        ((a + d + g) / 3, (b + e + h) / 3, (c + f + i) / 3))"

text \<open>
  The product of two (n, 3) arrays, row by row. numpy broadcasts an array of one row
  against the other array and raises when the row counts differ otherwise.
\<close>

definition broadcast_mul :: "vec3 list \<Rightarrow> vec3 list \<Rightarrow> vec3 list option" where
  "broadcast_mul xs ys =
     (if length xs = length ys then Some (map (\<lambda>(x, y). vmul x y) (zip xs ys))
      else if length xs = 1 then Some (map (vmul (hd xs)) ys)
      else if length ys = 1 then Some (map (\<lambda>x. vmul x (hd ys)) xs)
      else None)"

text \<open>
  \<^verbatim>\<open>dot_products\<close>: for every face, the dot product of its normal with the normalised
  vector from the centre of the mesh to the centre of the face (\<open>None\<close>: raised).
\<close>

definition dot_products :: "vec3 list \<Rightarrow> face list \<Rightarrow> vec3 list \<Rightarrow> real list option" where
  "dot_products vs fs fnormals = do {
     let center = mean_axis0 vs;
     corners \<leftarrow> index_faces vs fs;
     let face_centers = map corner_mean corners;
     let center_to_face = map (\<lambda>p. vsub p center) face_centers;
     let center_to_face = map (\<lambda>v. vdiv v (vnorm v + 1 / 10 ^ 8)) center_to_face;
     prods \<leftarrow> broadcast_mul fnormals center_to_face;
     Some (map vsum prods)
   }"

definition outward_ratio :: "real list \<Rightarrow> real" where
  "outward_ratio dots =
     (let outward_faces = length (filter (\<lambda>d. d > 0) dots);
          total_faces = length dots
      in if total_faces > 0 then real outward_faces / real total_faces else 0)"

subsection \<open>The double-sided mesh\<close>

text \<open>\<^verbatim>\<open>faces[:, [0, 2, 1]]\<close> and \<^verbatim>\<open>np.vstack([faces, flipped_faces])\<close>\<close>

definition flipped_faces :: "face list \<Rightarrow> face list" where
  "flipped_faces fs = map (\<lambda>(a, b, c). (a, c, b)) fs"

definition all_faces :: "face list \<Rightarrow> face list" where
  "all_faces fs = fs @ flipped_faces fs"

text \<open>
  The three cleanup calls \<^verbatim>\<open>remove_degenerate_faces\<close>, \<^verbatim>\<open>remove_duplicate_faces\<close>,
  \<^verbatim>\<open>remove_unreferenced_vertices\<close> on one mesh: the first that raises ends the
  sequence, and the mesh stays as that call left it.
\<close>

definition cleanup :: "lib \<Rightarrow> mesh \<Rightarrow> bool \<times> mesh" where
  "cleanup l m =
     (case remove_degenerate_faces (tri l) m of
        (False, m1) \<Rightarrow> (False, m1)
      | (True, m1) \<Rightarrow>
        (case remove_duplicate_faces (tri l) m1 of
           (False, m2) \<Rightarrow> (False, m2)
         | (True, m2) \<Rightarrow> remove_unreferenced_vertices (tri l) m2))"

text \<open>
  The double-sided mesh before its cleanup: a new mesh on the same vertices with the
  flipped faces appended, and the vertex colours of the source mesh when it has some.
\<close>

definition transfer_colors :: "mesh \<Rightarrow> mesh \<Rightarrow> mesh" where
  "transfer_colors m d =
     (case vertex_colors m of
        Some c \<Rightarrow> d\<lparr>vertex_colors := Some c\<rparr>
      | None \<Rightarrow> d)"

definition double_sided_mesh :: "lib \<Rightarrow> mesh \<Rightarrow> vec3 list \<Rightarrow> face list \<Rightarrow> mesh option" where
  "double_sided_mesh l m vs fs = do {
     d \<leftarrow> trimesh_new (tri l) vs (all_faces fs);
     Some (transfer_colors m d)
   }"

text \<open>
  Step 3 of \<^verbatim>\<open>fix_face_orientation_and_normals\<close>, the body of its \<^verbatim>\<open>try\<close>: \<open>None\<close>
  when it raised, \<open>Some (Some d)\<close> when it returns the double-sided mesh \<open>d\<close>,
  \<open>Some None\<close> when it falls through to the standard cleanup.
\<close>

definition double_sided_step :: "lib \<Rightarrow> mesh \<Rightarrow> mesh option option" where
  "double_sided_step l m = do {
     let vs = vertices m;
     let fs = faces m;
     fnormals \<leftarrow> face_normals (tri l) m;
     if length fnormals > 0 then do {
       dots \<leftarrow> dot_products vs fs fnormals;
       if outward_ratio dots < 6 / 10 then do {
         d \<leftarrow> double_sided_mesh l m vs fs;
         (case cleanup l d of
            (True, d') \<Rightarrow> Some (Some d')
          | (False, d') \<Rightarrow> None)
       } else Some None
     } else Some None
   }"

text \<open>
  The body of the outer \<^verbatim>\<open>try\<close>: the value returned or the exception raised, and the
  state of the input mesh at that moment. Steps 1 and 2 catch their own exceptions.
\<close>

definition fix_body :: "lib \<Rightarrow> mesh \<Rightarrow> (error + mesh) \<times> mesh" where
  "fix_body l m =
     (let m1 = snd (fix_normals (tri l) m);
          m2 = snd (unify_normals (tri l) m1)
      in case double_sided_step l m2 of
           Some (Some d) \<Rightarrow> (Inr d, m2)
         | _ \<Rightarrow>
           (case cleanup l m2 of
              (True, m3) \<Rightarrow> (Inr m3, m3)
            | (False, m3) \<Rightarrow> (Inl LibraryError, m3)))"

definition fix_face_orientation_and_normals :: "lib \<Rightarrow> mesh \<Rightarrow> error + mesh" where
  "fix_face_orientation_and_normals l m =
     (case fix_body l m of
        (Inr r, cur) \<Rightarrow> Inr r
      | (Inl e, cur) \<Rightarrow> Inr cur)"

section \<open>Fallback reconstruction\<close>

text \<open>\<^verbatim>\<open>np.argmin\<close>: the first index of the least element; raises on an empty array.\<close>

definition np_argmin :: "real list \<Rightarrow> int option" where
  "np_argmin xs =
     (case np_min xs of
        None \<Rightarrow> None
      | Some mn \<Rightarrow> Some (int (length (takeWhile (\<lambda>x. x \<noteq> mn) xs))))"

text \<open>
  The closest-point mapping without scipy: for a hull vertex \<open>mv\<close>,
  \<^verbatim>\<open>dists = np.sum((points - mv)**2, axis=1)\<close> and the colour at \<^verbatim>\<open>np.argmin(dists)\<close>.
\<close>

definition closest_color :: "vec3 list \<Rightarrow> colour list \<Rightarrow> vec3 \<Rightarrow> colour option" where
  "closest_color pts colors mv = do {
     let dists = map (\<lambda>p. vsum (vmul (vsub p mv) (vsub p mv))) pts;
     closest_idx \<leftarrow> np_argmin dists;
     py_index colors closest_idx
   }"

definition hull_colors :: "lib \<Rightarrow> vec3 list \<Rightarrow> colour list \<Rightarrow> vec3 list \<Rightarrow> colour list option" where
  "hull_colors l pts colors mesh_vertices =
     (if has_scipy l then do {
        indices \<leftarrow> kdtree_query l pts mesh_vertices;
        all_some (map (py_index colors) indices)
      } else all_some (map (closest_color pts colors) mesh_vertices))"

text \<open>The body of the \<^verbatim>\<open>try\<close> of \<^verbatim>\<open>create_mesh_from_points_basic\<close> (\<open>None\<close>: raised).\<close>

definition basic_body :: "lib \<Rightarrow> vec3 list \<Rightarrow> colour list option \<Rightarrow> mesh option" where
  "basic_body l pts colors = do {
     m0 \<leftarrow> trimesh_new (tri l) pts [];
     h \<leftarrow> convex_hull (tri l) m0;
     (case colors of
        None \<Rightarrow> Some h
      | Some cs \<Rightarrow>
        if length cs = length pts then do {
          mesh_colors \<leftarrow> hull_colors l pts cs (vertices h);
          mesh_colors \<leftarrow> expand_colors mesh_colors;
          Some (h\<lparr>vertex_colors := Some mesh_colors\<rparr>)
        } else Some h)
   }"

text \<open>
  The \<^verbatim>\<open>except\<close> branch returns \<^verbatim>\<open>trimesh.creation.box(extents=[1, 1, 1])\<close>; an exception
  of that call leaves the function.
\<close>

definition create_mesh_from_points_basic ::
    "lib \<Rightarrow> vec3 list \<Rightarrow> colour list option \<Rightarrow> error + mesh" where
  "create_mesh_from_points_basic l pts colors =
     (case basic_body l pts colors of
        Some m \<Rightarrow> Inr m
      | None \<Rightarrow>
        (case creation_box (tri l) of
           Some b \<Rightarrow> Inr b
         | None \<Rightarrow> Inl LibraryError))"

section \<open>Loading\<close>

record ply_data =
  pd_vertices :: "vec3 list"
  pd_faces :: "face list option"
  pd_colors :: "colour list option"
  is_point_cloud :: bool

definition make_ply_data :: "vec3 list \<Rightarrow> face list option \<Rightarrow> colour list option \<Rightarrow> ply_data" where
  "make_ply_data vs fs cs =
     \<lparr>pd_vertices = vs, pd_faces = fs, pd_colors = cs,
      is_point_cloud = (case fs of None \<Rightarrow> True | Some f \<Rightarrow> length f = 0)\<rparr>"

text \<open>
  \<^verbatim>\<open>load_ply_file\<close>: trimesh first (it keeps a face list only when there is at least one
  face), plyfile second, \<^verbatim>\<open>RuntimeError\<close> when both raise.
\<close>

definition load_ply_file :: "lib \<Rightarrow> string \<Rightarrow> error + ply_data" where
  "load_ply_file l file_path =
     (case trimesh_load l file_path of
        Some (vs, fs, cs) \<Rightarrow>
          Inr (make_ply_data vs
                 (case fs of None \<Rightarrow> None | Some f \<Rightarrow> if length f > 0 then Some f else None) cs)
      | None \<Rightarrow>
        (case plyfile_read l file_path of
           Some (vs, fs, cs) \<Rightarrow> Inr (make_ply_data vs fs cs)
         | None \<Rightarrow> Inl (RuntimeError ''Failed to load PLY file'')))"

section \<open>The conversion\<close>

text \<open>
  \<^verbatim>\<open>convert_ply\<close> reports its progress through \<^verbatim>\<open>update_progress(message, progress)\<close>.
  The model records the percentages passed to the callback, in order; the messages are
  not modelled. Each stage returns its result together with the percentages it reported.
\<close>

type_synonym results = "(string \<times> string) list"

text \<open>The point-cloud branch: Poisson, else the basic reconstruction.\<close>

definition reconstruct_point_cloud ::
    "lib \<Rightarrow> vec3 list \<Rightarrow> colour list option \<Rightarrow> string \<Rightarrow> (error + mesh) \<times> int list" where
  "reconstruct_point_cloud l vs colors smoothing_level =
     (case precise_poisson_reconstruction l vs colors smoothing_level of
        None \<Rightarrow> (create_mesh_from_points_basic l vs colors, [25, 35])
      | Some m \<Rightarrow> (Inr m, [25, 45]))"

text \<open>The mesh branch: a trimesh mesh from the loaded vertices and faces, with their colours.\<close>

definition mesh_from_data :: "lib \<Rightarrow> ply_data \<Rightarrow> mesh option" where
  "mesh_from_data l d = do {
     m \<leftarrow> trimesh_new (tri l) (pd_vertices d) (case pd_faces d of None \<Rightarrow> [] | Some f \<Rightarrow> f);
     (case pd_colors d of
        None \<Rightarrow> Some m
      | Some cs \<Rightarrow> do {
          cs' \<leftarrow> expand_colors cs;
          Some (m\<lparr>vertex_colors := Some cs'\<rparr>)
        })
   }"

definition build_mesh :: "lib \<Rightarrow> ply_data \<Rightarrow> string \<Rightarrow> (error + mesh) \<times> int list" where
  "build_mesh l d smoothing_level =
     (if is_point_cloud d then
        reconstruct_point_cloud l (pd_vertices d) (pd_colors d) smoothing_level
      else
        (case mesh_from_data l d of
           None \<Rightarrow> (Inl LibraryError, [25])
         | Some m \<Rightarrow> (Inr m, [25, 40])))"

text \<open>
  \<^verbatim>\<open>if not is_point_cloud: mesh = smooth_mesh_basic(mesh, smoothing_level)\<close>
\<close>

definition smoothing_stage :: "lib \<Rightarrow> bool \<Rightarrow> mesh \<Rightarrow> string \<Rightarrow> mesh" where
  "smoothing_stage l is_pc m smoothing_level =
     (if \<not> is_pc then smooth_mesh_basic l m smoothing_level else m)"

text \<open>
  The export loop over \<^verbatim>\<open>enumerate(output_formats)\<close>; \<open>n\<close> is \<^verbatim>\<open>len(output_formats)\<close>
  and \<open>i\<close> the index. A format whose export raises is skipped.
\<close>

definition export_progress :: "nat \<Rightarrow> nat \<Rightarrow> int" where
  "export_progress i n = 80 + \<lfloor>real (i + 1) / real n * 15\<rfloor>"

definition export_path :: "string \<Rightarrow> string \<Rightarrow> string \<Rightarrow> string" where
  "export_path output_dir conversion_id fmt =
     output_dir @ ''/'' @ conversion_id @ ''_smooth.'' @ fmt"

fun export_loop ::
    "lib \<Rightarrow> mesh \<Rightarrow> string \<Rightarrow> string \<Rightarrow> nat \<Rightarrow> nat \<Rightarrow> string list \<Rightarrow> results \<Rightarrow> results \<times> int list" where
  "export_loop l m output_dir conversion_id n i [] res = (res, [])"
| "export_loop l m output_dir conversion_id n i (fmt # rest) res =
     (let file_path = export_path output_dir conversion_id fmt;
          res' = (if export (tri l) m file_path then AList.update fmt file_path res else res);
          (final, t) = export_loop l m output_dir conversion_id n (i + 1) rest res'
      in (final, export_progress i n # t))"

text \<open>The export stage, from \<^verbatim>\<open>results = {}\<close> to \<^verbatim>\<open>return results\<close>.\<close>

definition export_stage ::
    "lib \<Rightarrow> mesh \<Rightarrow> string \<Rightarrow> string list \<Rightarrow> string \<Rightarrow> (error + results) \<times> int list" where
  "export_stage l m output_dir output_formats conversion_id =
     (if \<not> mkdir l output_dir then (Inl LibraryError, [])
      else
        (case export_loop l m output_dir conversion_id (length output_formats) 0 output_formats [] of
           (res, t) \<Rightarrow>
             if res = [] then (Inl (RuntimeError ''No files were successfully exported''), t)
             else (Inr res, t @ [100])))"

text \<open>The stages between the orientation fix and the export.\<close>

definition finish_mesh :: "lib \<Rightarrow> bool \<Rightarrow> mesh \<Rightarrow> string \<Rightarrow> mesh" where
  "finish_mesh l is_pc m smoothing_level =
     snd (cleanup l (smoothing_stage l is_pc m smoothing_level))"

text \<open>The body of the \<^verbatim>\<open>try\<close> of \<^verbatim>\<open>convert_ply\<close>.\<close>

definition convert_try ::
    "lib \<Rightarrow> string \<Rightarrow> string \<Rightarrow> string list \<Rightarrow> string \<Rightarrow> string \<Rightarrow> (error + results) \<times> int list" where
  "convert_try l input_path output_dir output_formats conversion_id smoothing_level =
     (case load_ply_file l input_path of
        Inl e \<Rightarrow> (Inl e, [5])
      | Inr d \<Rightarrow>
        (case build_mesh l d smoothing_level of
           (Inl e, t) \<Rightarrow> (Inl e, [5, 15] @ t)
         | (Inr m0, t) \<Rightarrow>
           (case fix_face_orientation_and_normals l m0 of
              Inl e \<Rightarrow> (Inl e, [5, 15] @ t @ [55])
            | Inr m1 \<Rightarrow>
              (case export_stage l (finish_mesh l (is_point_cloud d) m1 smoothing_level)
                      output_dir output_formats conversion_id of
                 (r, t') \<Rightarrow> (r, [5, 15] @ t @ [55, 65, 75, 80] @ t')))))"

fun error_message :: "error \<Rightarrow> string" where
  "error_message LibraryError = ''library error''"
| "error_message (RuntimeError msg) = msg"

text \<open>
  \<^verbatim>\<open>convert_ply\<close>: the \<^verbatim>\<open>except\<close> branch reports \<^verbatim>\<open>update_progress(error_msg, 0)\<close>
  and raises \<^verbatim>\<open>RuntimeError(error_msg)\<close>.
\<close>

definition convert_ply ::
    "lib \<Rightarrow> string \<Rightarrow> string \<Rightarrow> string list \<Rightarrow> string \<Rightarrow> string \<Rightarrow> (error + results) \<times> int list" where
  "convert_ply l input_path output_dir output_formats conversion_id smoothing_level =
     (case convert_try l input_path output_dir output_formats conversion_id smoothing_level of
        (Inr res, t) \<Rightarrow> (Inr res, t)
      | (Inl e, t) \<Rightarrow> (Inl (RuntimeError (''Conversion failed: '' @ error_message e)), t @ [0]))"

section \<open>The web application\<close>

text \<open>
  \<^verbatim>\<open>app.py\<close>: the upload handler validates a request and starts a conversion job in a
  background thread; the job reports to the registry \<^verbatim>\<open>conversion_progress\<close>. What
  the handler reads from its surroundings is a parameter: the identifier \<^verbatim>\<open>uuid4\<close>
  returns, werkzeug's \<^verbatim>\<open>secure_filename\<close>, whether \<^verbatim>\<open>file.save\<close> completes, and
  whether the converter can be imported and instantiated.
\<close>

record web_env =
  uuid4 :: string
  secure_filename :: "string \<Rightarrow> string"
  file_save :: "string \<Rightarrow> bool"
  import_converter :: bool
  create_converter :: bool

definition ALLOWED_EXTENSIONS :: "string list" where
  "ALLOWED_EXTENSIONS = [''ply'']"

definition OUTPUT_FORMATS :: "string list" where
  "OUTPUT_FORMATS = [''stl'', ''obj'', ''glb'', ''3mf'', ''dxf'']"

definition SMOOTHING_LEVELS :: "string list" where
  "SMOOTHING_LEVELS = [''light'', ''medium'', ''high'', ''ultra'']"

definition lower_char :: "char \<Rightarrow> char" where
  "lower_char c =
     (case map_of (zip ''ABCDEFGHIJKLMNOPQRSTUVWXYZ'' ''abcdefghijklmnopqrstuvwxyz'') c of
        Some d \<Rightarrow> d
      | None \<Rightarrow> c)"

text \<open>\<^verbatim>\<open>filename.rsplit('.', 1)[1]\<close>: what follows the last dot.\<close>

definition rsplit_last :: "string \<Rightarrow> string" where
  "rsplit_last s = rev (takeWhile (\<lambda>c. c \<noteq> CHR ''.'') (rev s))"

definition allowed_file :: "string \<Rightarrow> bool" where
  "allowed_file fname =
     (CHR ''.'' \<in> set fname \<and> map lower_char (rsplit_last fname) \<in> set ALLOWED_EXTENSIONS)"

record job_entry =
  status :: string
  progress :: int
  input_file :: string
  output_formats :: "string list"
  smoothing_level :: string

type_synonym registry = "string \<Rightarrow> job_entry option"

record app_state =
  conversion_progress :: registry
  conversion_results :: "string \<Rightarrow> results option"

record upload_request =
  has_file :: bool
  filename :: string
  formats :: "string list"
  smoothing :: "string option"

text \<open>
  A response is an error with its HTTP status, or the announcement of the job with its
  identifier, input file, output formats and smoothing level.
\<close>

datatype response =
  Error_response string nat
| Started_response string string "string list" string

text \<open>The arguments of the background thread: identifier, input path, formats, level.\<close>

type_synonym job_args = "string \<times> string \<times> string list \<times> string"

definition upload_file ::
    "web_env \<Rightarrow> lib \<Rightarrow> upload_request \<Rightarrow> app_state \<Rightarrow> response \<times> app_state \<times> job_args option" where
  "upload_file env l req st =
     (if \<not> has_file req then (Error_response ''No file uploaded'' 400, st, None)
      else if filename req = [] then (Error_response ''No file selected'' 400, st, None)
      else if \<not> allowed_file (filename req) then
        (Error_response ''Only PLY files are allowed'' 400, st, None)
      else
        (let conversion_id = uuid4 env;
             fname = secure_filename env (filename req);
             input_path = ''uploads/'' @ conversion_id @ ''_'' @ fname
         in if \<not> file_save env input_path then (Error_response ''Upload failed'' 500, st, None)
            else if \<not> path_exists l input_path then (Error_response ''File save failed'' 500, st, None)
            else
              (let requested = (if formats req = [] then [''stl''] else formats req);
                   level = (case smoothing req of None \<Rightarrow> ''medium'' | Some s \<Rightarrow> s);
                   level = (if level \<notin> set SMOOTHING_LEVELS then ''medium'' else level);
                   valid_formats = filter (\<lambda>fmt. fmt \<in> set OUTPUT_FORMATS) requested
               in if valid_formats = [] then
                    (Error_response ''Invalid output formats specified'' 400, st, None)
                  else
                    (Started_response conversion_id fname valid_formats level,
                     st\<lparr>conversion_progress := (conversion_progress st)(conversion_id \<mapsto>
                          \<lparr>status = ''starting'', progress = 0, input_file = fname,
                           output_formats = valid_formats, smoothing_level = level\<rparr>)\<rparr>,
                     Some (conversion_id, input_path, valid_formats, level)))))"

text \<open>The job's \<^verbatim>\<open>progress_callback\<close>, and the callbacks of a whole run in order.\<close>

definition progress_callback :: "string \<Rightarrow> app_state \<Rightarrow> int \<Rightarrow> app_state" where
  "progress_callback conversion_id st p =
     (case conversion_progress st conversion_id of
        None \<Rightarrow> st
      | Some e \<Rightarrow>
        st\<lparr>conversion_progress := (conversion_progress st)(conversion_id \<mapsto>
             e\<lparr>progress := min p 100, status := ''converting''\<rparr>)\<rparr>)"

definition run_callbacks :: "string \<Rightarrow> app_state \<Rightarrow> int list \<Rightarrow> app_state" where
  "run_callbacks conversion_id st ps = foldl (progress_callback conversion_id) st ps"

text \<open>The verification of the output files after the conversion.\<close>

definition verify_results :: "lib \<Rightarrow> results \<Rightarrow> results" where
  "verify_results l res =
     filter (\<lambda>(format_name, file_path). file_path \<noteq> [] \<and> path_exists l file_path) res"

text \<open>
  The body of the \<^verbatim>\<open>try\<close> of \<^verbatim>\<open>convert_file_async_debug\<close>: the flag is \<open>False\<close> when
  it raised. The callbacks seen so far, by the job and by the converter, are the third
  component.
\<close>

definition job_try ::
    "web_env \<Rightarrow> lib \<Rightarrow> string \<Rightarrow> string \<Rightarrow> string list \<Rightarrow> string \<Rightarrow> app_state \<Rightarrow>
     bool \<times> app_state \<times> int list" where
  "job_try env l conversion_id input_path fmts level st =
     (if \<not> import_converter env then (False, run_callbacks conversion_id st [5], [5])
      else if \<not> create_converter env then (False, run_callbacks conversion_id st [5, 10], [5, 10])
      else if \<not> path_exists l input_path then
        (False, run_callbacks conversion_id st [5, 10, 15], [5, 10, 15])
      else if \<not> path_exists l ''outputs'' \<and> \<not> mkdir l ''outputs'' then
        (False, run_callbacks conversion_id st [5, 10, 15], [5, 10, 15])
      else
        (case convert_ply l input_path ''outputs'' fmts conversion_id level of
           (r, t) \<Rightarrow>
             (let ps = [5, 10, 15, 20] @ t;
                  st1 = run_callbacks conversion_id st ps
              in case r of
                   Inl e \<Rightarrow> (False, st1, ps)
                 | Inr res \<Rightarrow>
                   (let verified_results = verify_results l res
                    in if verified_results = [] then (False, st1, ps)
                       else
                         (let st2 = st1\<lparr>conversion_results :=
                                      (conversion_results st1)(conversion_id \<mapsto> verified_results)\<rparr>
                          in case conversion_progress st2 conversion_id of
                               None \<Rightarrow> (False, st2, ps)
                             | Some e \<Rightarrow>
                               (True,
                                st2\<lparr>conversion_progress := (conversion_progress st2)(conversion_id \<mapsto>
                                      e\<lparr>status := ''completed'', progress := 100\<rparr>)\<rparr>,
                                ps))))))"

definition convert_file_async_debug ::
    "web_env \<Rightarrow> lib \<Rightarrow> string \<Rightarrow> string \<Rightarrow> string list \<Rightarrow> string \<Rightarrow> app_state \<Rightarrow> app_state" where
  "convert_file_async_debug env l conversion_id input_path fmts level st =
     (case job_try env l conversion_id input_path fmts level st of
        (True, st', ps) \<Rightarrow> st'
      | (False, st', ps) \<Rightarrow>
        (case conversion_progress st' conversion_id of
           None \<Rightarrow> st'
         | Some e \<Rightarrow>
           st'\<lparr>conversion_progress := (conversion_progress st')(conversion_id \<mapsto>
                 e\<lparr>status := ''error''\<rparr>)\<rparr>))"

section \<open>Auxiliary notions\<close>

text \<open>A mesh with at least one vertex and at least one face.\<close>

definition has_geometry :: "mesh \<Rightarrow> bool" where
  "has_geometry m = (1 \<le> length (vertices m) \<and> 1 \<le> length (faces m))"

text \<open>The libraries \<open>l\<close> with another smoothing capability: only \<^verbatim>\<open>smoothed\<close> differs.\<close>

definition with_smoothing :: "lib \<Rightarrow> (mesh \<Rightarrow> bool) \<Rightarrow> (mesh \<Rightarrow> mesh option) \<Rightarrow> lib" where
  "with_smoothing l h s = l\<lparr>tri := (tri l)\<lparr>has_smoothed := h, smoothed := s\<rparr>\<rparr>"

text \<open>The formats whose export completes for a mesh, and their files.\<close>

definition exported :: "lib \<Rightarrow> mesh \<Rightarrow> string \<Rightarrow> string \<Rightarrow> string \<Rightarrow> bool" where
  "exported l m output_dir conversion_id fmt =
     export (tri l) m (export_path output_dir conversion_id fmt)"

text \<open>
  What \<^verbatim>\<open>convert_file_async_debug\<close> checks before it calls the converter: the import, the
  instance, the input file and the output directory.
\<close>

definition prechecks :: "web_env \<Rightarrow> lib \<Rightarrow> string \<Rightarrow> bool" where
  "prechecks env l inp =
     (import_converter env \<and> create_converter env \<and> path_exists l inp \<and>
      (path_exists l ''outputs'' \<or> mkdir l ''outputs''))"

text \<open>
  The checks of \<^verbatim>\<open>upload_file\<close> on the uploaded file, which come before the formats
  are looked at: a file with an allowed name was sent, saved and found on disk.
\<close>

definition file_accepted :: "web_env \<Rightarrow> lib \<Rightarrow> upload_request \<Rightarrow> bool" where
  "file_accepted env l req =
     (has_file req \<and> filename req \<noteq> [] \<and> allowed_file (filename req) \<and>
      file_save env (''uploads/'' @ uuid4 env @ ''_'' @ secure_filename env (filename req)) \<and>
      path_exists l (''uploads/'' @ uuid4 env @ ''_'' @ secure_filename env (filename req)))"

section \<open>An example library and example inputs\<close>

text \<open>
  Two triangles facing away from each other, one in the plane \<open>z = 1\<close> and one in the
  plane \<open>z = -1\<close>, around the origin; and the same mesh with both windings reversed.
\<close>

definition plate_vertices :: "vec3 list" where
  "plate_vertices = [(1, 0, 1), (-1, 1, 1), (0, -1, 1), (1, 0, -1), (0, -1, -1), (-1, 1, -1)]"

definition plate_faces :: "face list" where
  "plate_faces = [(0, 1, 2), (3, 4, 5)]"

definition plate_normals :: "vec3 list" where
  "plate_normals = [(0, 0, 1), (0, 0, -1)]"

definition plate_colors :: "colour list" where
  "plate_colors = [[255, 0, 0], [0, 255, 0], [0, 0, 255], [255, 0, 0], [0, 255, 0], [0, 0, 255]]"

definition plates :: mesh where
  "plates = \<lparr>vertices = plate_vertices, faces = plate_faces, vertex_colors = None\<rparr>"

definition inverted_plates :: mesh where
  "inverted_plates =
     \<lparr>vertices = plate_vertices, faces = [(0, 2, 1), (3, 5, 4)], vertex_colors = Some plate_colors\<rparr>"

text \<open>The unit cube as a triangle mesh.\<close>

definition unit_box :: mesh where
  "unit_box =
     \<lparr>vertices = [(-1/2, -1/2, -1/2), (-1/2, -1/2, 1/2), (-1/2, 1/2, -1/2), (-1/2, 1/2, 1/2),
                  (1/2, -1/2, -1/2), (1/2, -1/2, 1/2), (1/2, 1/2, -1/2), (1/2, 1/2, 1/2)],
      faces = [(1, 3, 0), (4, 1, 0), (0, 3, 2), (2, 4, 0), (1, 7, 3), (5, 1, 4),
               (5, 7, 1), (3, 7, 2), (6, 4, 2), (2, 7, 6), (6, 5, 4), (7, 5, 6)],
      vertex_colors = None\<rparr>"

text \<open>
  A small library for the examples: the constructor stores what it is given, the normals
  of the two example meshes are tabulated, the cleanup drops faces with a repeated corner
  and repeated faces, smoothing halves every coordinate, the hull of at least four points
  is a prism on the first six, and the exporter knows four formats. Open3D is absent.
\<close>

definition demo_normals :: "mesh \<Rightarrow> vec3 list option" where
  "demo_normals m =
     (if faces m = plate_faces then Some plate_normals
      else if faces m = flipped_faces plate_faces
        then Some (map (\<lambda>(x, y, z). (- x, - y, - z)) plate_normals)
      else None)"

definition demo_trimesh :: trimesh_lib where
  "demo_trimesh =
     \<lparr>trimesh_new = (\<lambda>v f. Some \<lparr>vertices = v, faces = f, vertex_colors = None\<rparr>),
      fix_normals = (\<lambda>m. (True, m)),
      unify_normals = (\<lambda>m. (True, m)),
      face_normals = demo_normals,
      remove_degenerate_faces =
        (\<lambda>m. (True, m\<lparr>faces := filter (\<lambda>(a, b, c). a \<noteq> b \<and> b \<noteq> c \<and> a \<noteq> c) (faces m)\<rparr>)),
      remove_duplicate_faces = (\<lambda>m. (True, m\<lparr>faces := remdups (faces m)\<rparr>)),
      remove_unreferenced_vertices = (\<lambda>m. (True, m)),
      has_smoothed = (\<lambda>m. True),
      smoothed = (\<lambda>m. Some (m\<lparr>vertices := map (\<lambda>(x, y, z). (x / 2, y / 2, z / 2)) (vertices m)\<rparr>)),
      convex_hull =
        (\<lambda>m. if length (vertices m) < 4 then None
             else Some (m\<lparr>faces := [(0, 1, 2), (3, 4, 5), (0, 3, 1), (1, 3, 5),
                                      (1, 5, 2), (2, 5, 4), (2, 4, 0), (0, 4, 3)]\<rparr>)),
      creation_box = Some unit_box,
      export = (\<lambda>m p. rsplit_last p \<in> set [''stl'', ''obj'', ''glb'', ''ply''])\<rparr>"

definition no_open3d :: open3d_lib where
  "no_open3d =
     \<lparr>make_point_cloud = (\<lambda>v c. None),
      estimate_normals = (\<lambda>p r k. None),
      orient_normals_consistent_tangent_plane = (\<lambda>p k. None),
      orient_normals_to_align_with_direction = (\<lambda>p. None),
      create_from_point_cloud_poisson = (\<lambda>p d. None),
      remove_vertices_by_mask = (\<lambda>m b. None),
      remove_duplicated_vertices = (\<lambda>m. None),
      remove_duplicated_triangles = (\<lambda>m. None),
      remove_degenerate_triangles = (\<lambda>m. None),
      o3d_remove_unreferenced_vertices = (\<lambda>m. None),
      filter_smooth_laplacian = (\<lambda>m n x. None)\<rparr>"

text \<open>
  Two files can be loaded: a mesh file with the two plates and a point cloud with their
  six vertices. Every directory can be created and every path exists.
\<close>

definition demo_load :: "string \<Rightarrow> raw_ply option" where
  "demo_load p =
     (if p = ''uploads/job1_plates.ply'' then Some (plate_vertices, Some plate_faces, None)
      else if p = ''uploads/job1_cloud.ply'' then Some (plate_vertices, None, None)
      else None)"

definition demo_lib :: lib where
  "demo_lib =
     \<lparr>has_open3d = False, has_scipy = False, tri = demo_trimesh, o3d = no_open3d,
      kdtree_query = (\<lambda>p q. None), trimesh_load = demo_load, plyfile_read = (\<lambda>p. None),
      mkdir = (\<lambda>p. True), path_exists = (\<lambda>p. True)\<rparr>"




definition demo_env :: web_env where
  "demo_env =
     \<lparr>uuid4 = ''job1'', secure_filename = (\<lambda>s. s), file_save = (\<lambda>p. True),
      import_converter = True, create_converter = True\<rparr>"

definition empty_state :: app_state where
  "empty_state = \<lparr>conversion_progress = (\<lambda>k. None), conversion_results = (\<lambda>k. None)\<rparr>"

text \<open>A registry in which the job \<open>job1\<close> has just been announced.\<close>

definition registered_state :: app_state where
  "registered_state =
     empty_state\<lparr>conversion_progress :=
       [''job1'' \<mapsto> \<lparr>status = ''starting'', progress = 0, input_file = ''plates.ply'',
                     output_formats = [''stl''], smoothing_level = ''medium''\<rparr>]\<rparr>"

section \<open>Properties of the density filter\<close>

lemma np_min_Min:
  assumes "xs \<noteq> []"
  shows "np_min xs = Some (Min (set xs))"
proof (cases xs)
  case Nil
  with assms show ?thesis by simp
next
  case (Cons x ys)
  then show ?thesis using Min.set_eq_fold [of x ys] by simp
qed

lemma np_mean_nonneg: "(\<forall>x\<in>set xs. 0 \<le> x) \<Longrightarrow> 0 \<le> np_mean xs"
  by (simp add: np_mean_def sum_list_nonneg)

lemma np_std_nonneg: "0 \<le> np_std xs"
  unfolding np_std_def by (rule real_sqrt_ge_zero, rule np_mean_nonneg) simp

lemma filter_id_pos: "(filter id bs \<noteq> []) = (True \<in> set bs)"
  by (induction bs) auto

text \<open>
  C1 (as amended). The density-filter threshold is
  \<open>max (mean - 2 * std) (min * 1.1)\<close>: it is never below \<open>min * 1.1\<close> nor below
  \<open>mean - 2 * std\<close>, and it is at most the mean density exactly when \<open>min * 1.1\<close> is at
  most the mean density. The mask handed to the removal marks exactly the vertices whose
  density is strictly below the threshold, and the removal is called with this mask as
  soon as one vertex is marked.
\<close>

theorem density_threshold_bounds:
  "ds \<noteq> [] \<Longrightarrow>
     Min (set ds) * (11 / 10) \<le> density_threshold ds \<and>
     np_mean ds - 2 * np_std ds \<le> density_threshold ds \<and>
     (density_threshold ds \<le> np_mean ds) = (Min (set ds) * (11 / 10) \<le> np_mean ds) \<and>
     length (vertices_to_remove ds) = length ds \<and>
     (\<forall>i < length ds. vertices_to_remove ds ! i = (ds ! i < density_threshold ds)) \<and>
     density_filter l m ds =
       (if \<exists>d \<in> set ds. d < density_threshold ds
        then remove_vertices_by_mask (o3d l) m (vertices_to_remove ds) else Some m)"
proof -
  assume ne: "ds \<noteq> []"
  have mn: "the (np_min ds) = Min (set ds)" using np_min_Min[OF ne] by simp
  have s: "0 \<le> np_std ds" by (rule np_std_nonneg)
  have a: "Min (set ds) * (11 / 10) \<le> density_threshold ds"
    by (simp add: density_threshold_def mn)
  have b: "np_mean ds - 2 * np_std ds \<le> density_threshold ds"
    by (simp add: density_threshold_def)
  have c: "(density_threshold ds \<le> np_mean ds) = (Min (set ds) * (11 / 10) \<le> np_mean ds)"
    using s by (auto simp: density_threshold_def mn)
  have d: "length (vertices_to_remove ds) = length ds"
    by (simp add: vertices_to_remove_def)
  have e: "\<forall>i < length ds. vertices_to_remove ds ! i = (ds ! i < density_threshold ds)"
    by (simp add: vertices_to_remove_def)
  have "(True \<in> set (vertices_to_remove ds)) = (\<exists>d \<in> set ds. d < density_threshold ds)"
    by (auto simp: vertices_to_remove_def)
  then have f: "density_filter l m ds =
       (if \<exists>d \<in> set ds. d < density_threshold ds
        then remove_vertices_by_mask (o3d l) m (vertices_to_remove ds) else Some m)"
    using ne by (simp add: density_filter_def Let_def filter_id_pos)
  from a b c d e f show ?thesis by blast
qed

text \<open>
  C1 as stated fails: the densities 10 and 10.5 have positive variance, and their
  threshold \<open>10 * 1.1 = 11\<close> is above their mean 10.25 (both vertices are removed).
\<close>

theorem density_threshold_counterexample:
  "0 < np_std [10, 21 / 2] \<and> \<not> density_threshold [10, 21 / 2] \<le> np_mean [10, 21 / 2]"
  by (simp add: density_threshold_def np_std_def np_mean_def)

theorem density_threshold_bounds_witness:
  "density_threshold [1, 3] = 11 / 10 \<and> density_threshold [1, 3] \<le> np_mean [1, 3] \<and>
   vertices_to_remove [1, 3] = [True, False]"
  using density_threshold_bounds [of "[1, 3]"]
  by (simp add: np_mean_def np_std_def density_threshold_def vertices_to_remove_def)

section \<open>Properties of the smoothing levels\<close>

lemma unknown_depth:
  "level \<notin> {''light'', ''medium'', ''high'', ''ultra''} \<Longrightarrow> poisson_depth level = 9"
  by (simp add: poisson_depth_def depth_map_def)

lemma medium_depth: "poisson_depth ''medium'' = 9"
  by (simp add: poisson_depth_def depth_map_def)

lemma unknown_iterations:
  "level \<notin> {''light'', ''medium'', ''high'', ''ultra''} \<Longrightarrow> smooth_iterations level = 2"
  by (simp add: smooth_iterations_def iterations_map_def)

lemma medium_iterations: "smooth_iterations ''medium'' = 2"
  by (simp add: smooth_iterations_def iterations_map_def)

lemma unknown_extra_smoothing:
  "level \<notin> {''light'', ''medium'', ''high'', ''ultra''} \<Longrightarrow> extra_smoothing l m level = Some m"
  by (simp add: extra_smoothing_def)

lemma medium_extra_smoothing: "extra_smoothing l m ''medium'' = Some m"
  by (simp add: extra_smoothing_def)

lemma unknown_poisson:
  assumes "level \<notin> {''light'', ''medium'', ''high'', ''ultra''}"
  shows "precise_poisson_reconstruction l vs cs level =
         precise_poisson_reconstruction l vs cs ''medium''"
  unfolding precise_poisson_reconstruction_def poisson_body_def
  by (simp only: unknown_depth [OF assms] medium_depth unknown_extra_smoothing [OF assms]
        medium_extra_smoothing)

lemma unknown_smooth:
  assumes "level \<notin> {''light'', ''medium'', ''high'', ''ultra''}"
  shows "smooth_mesh_basic l m level = smooth_mesh_basic l m ''medium''"
  unfolding smooth_mesh_basic_def
  by (simp only: unknown_iterations [OF assms] medium_iterations)

lemma unknown_convert:
  assumes "level \<notin> {''light'', ''medium'', ''high'', ''ultra''}"
  shows "convert_ply l inp out fmts cid level = convert_ply l inp out fmts cid ''medium''"
  unfolding convert_ply_def convert_try_def build_mesh_def reconstruct_point_cloud_def
    finish_mesh_def smoothing_stage_def
  by (simp only: unknown_poisson [OF assms] unknown_smooth [OF assms])

text \<open>
  C10. A smoothing level outside light, medium, high, ultra is handled like
  \<open>medium\<close>: the Poisson depth is 9, the basic smoothing runs 2 iterations, and the
  Poisson reconstruction, the basic smoothing and the whole conversion (result and
  reported percentages) are those of \<open>medium\<close>, so the level causes no failure.
\<close>

theorem unknown_level_is_medium:
  assumes "level \<notin> {''light'', ''medium'', ''high'', ''ultra''}"
  shows "poisson_depth level = 9 \<and> poisson_depth ''medium'' = 9 \<and>
         smooth_iterations level = 2 \<and> smooth_iterations ''medium'' = 2 \<and>
         precise_poisson_reconstruction l vs cs level =
           precise_poisson_reconstruction l vs cs ''medium'' \<and>
         smooth_mesh_basic l m level = smooth_mesh_basic l m ''medium'' \<and>
         convert_ply l inp out fmts cid level = convert_ply l inp out fmts cid ''medium''"
  using unknown_depth [OF assms] medium_depth unknown_iterations [OF assms] medium_iterations
    unknown_poisson [OF assms] unknown_smooth [OF assms] unknown_convert [OF assms]
  by blast

theorem unknown_level_is_medium_witness:
  "poisson_depth ''extreme'' = 9 \<and> smooth_iterations ''extreme'' = 2 \<and>
   (\<forall>l vs cs. precise_poisson_reconstruction l vs cs ''extreme'' =
           precise_poisson_reconstruction l vs cs ''medium'') \<and>
   (\<forall>l m. smooth_mesh_basic l m ''extreme'' = smooth_mesh_basic l m ''medium'') \<and>
   (\<forall>l inp out fmts cid. convert_ply l inp out fmts cid ''extreme'' =
           convert_ply l inp out fmts cid ''medium'')"
proof -
  have h: "''extreme'' \<notin> {''light'', ''medium'', ''high'', ''ultra''}" by simp
  show ?thesis using unknown_level_is_medium [OF h] by blast
qed

section \<open>Properties of the smoothing stage\<close>

lemma smooth_iterations_levels:
  "smooth_iterations ''light'' = 1 \<and> smooth_iterations ''medium'' = 2 \<and>
   smooth_iterations ''high'' = 3 \<and> smooth_iterations ''ultra'' = 5"
  by (simp add: smooth_iterations_def iterations_map_def)

lemma ws_sel:
  "has_open3d (with_smoothing l h s) = has_open3d l"
  "has_scipy (with_smoothing l h s) = has_scipy l"
  "o3d (with_smoothing l h s) = o3d l"
  "kdtree_query (with_smoothing l h s) = kdtree_query l"
  "trimesh_load (with_smoothing l h s) = trimesh_load l"
  "plyfile_read (with_smoothing l h s) = plyfile_read l"
  "mkdir (with_smoothing l h s) = mkdir l"
  "path_exists (with_smoothing l h s) = path_exists l"
  "trimesh_new (tri (with_smoothing l h s)) = trimesh_new (tri l)"
  "fix_normals (tri (with_smoothing l h s)) = fix_normals (tri l)"
  "unify_normals (tri (with_smoothing l h s)) = unify_normals (tri l)"
  "face_normals (tri (with_smoothing l h s)) = face_normals (tri l)"
  "remove_degenerate_faces (tri (with_smoothing l h s)) = remove_degenerate_faces (tri l)"
  "remove_duplicate_faces (tri (with_smoothing l h s)) = remove_duplicate_faces (tri l)"
  "remove_unreferenced_vertices (tri (with_smoothing l h s)) = remove_unreferenced_vertices (tri l)"
  "convex_hull (tri (with_smoothing l h s)) = convex_hull (tri l)"
  "creation_box (tri (with_smoothing l h s)) = creation_box (tri l)"
  "export (tri (with_smoothing l h s)) = export (tri l)"
  by (simp_all add: with_smoothing_def)

lemma ws_poisson:
  "precise_poisson_reconstruction (with_smoothing l h s) = precise_poisson_reconstruction l"
  by (intro ext) (simp add: precise_poisson_reconstruction_def poisson_body_def
      density_filter_def orient_normals_def extra_smoothing_def to_trimesh_def ws_sel cong: option.case_cong prod.case_cong bool.case_cong sum.case_cong if_cong Option.bind_cong)

lemma ws_basic:
  "create_mesh_from_points_basic (with_smoothing l h s) = create_mesh_from_points_basic l"
  by (intro ext) (simp add: create_mesh_from_points_basic_def basic_body_def
      hull_colors_def ws_sel cong: option.case_cong prod.case_cong bool.case_cong sum.case_cong if_cong Option.bind_cong)

lemma ws_cleanup: "cleanup (with_smoothing l h s) = cleanup l"
  by (intro ext) (simp add: cleanup_def ws_sel cong: option.case_cong prod.case_cong bool.case_cong sum.case_cong if_cong Option.bind_cong)

lemma ws_fix:
  "fix_face_orientation_and_normals (with_smoothing l h s) = fix_face_orientation_and_normals l"
  by (intro ext) (simp add: fix_face_orientation_and_normals_def fix_body_def ws_cleanup
      double_sided_step_def double_sided_mesh_def ws_sel cong: option.case_cong prod.case_cong bool.case_cong sum.case_cong if_cong Option.bind_cong)

lemma ws_export_loop:
  "export_loop (with_smoothing l h s) m od cid n i fs res = export_loop l m od cid n i fs res"
  by (induction fs arbitrary: i res) (simp_all add: ws_sel cong: option.case_cong prod.case_cong bool.case_cong sum.case_cong if_cong Option.bind_cong)

lemma ws_export_stage: "export_stage (with_smoothing l h s) = export_stage l"
  by (intro ext) (simp add: export_stage_def ws_export_loop ws_sel cong: option.case_cong prod.case_cong bool.case_cong sum.case_cong if_cong Option.bind_cong)

lemma ws_load: "load_ply_file (with_smoothing l h s) = load_ply_file l"
  by (intro ext) (simp add: load_ply_file_def ws_sel cong: option.case_cong prod.case_cong bool.case_cong sum.case_cong if_cong Option.bind_cong)

lemma ws_convert:
  assumes "load_ply_file l inp = Inr d" "is_point_cloud d"
  shows "convert_ply (with_smoothing l h s) inp out fmts cid level =
         convert_ply l inp out fmts cid level"
  using assms
  by (simp add: convert_ply_def convert_try_def ws_load build_mesh_def
      reconstruct_point_cloud_def ws_poisson ws_basic ws_fix finish_mesh_def smoothing_stage_def
      ws_cleanup ws_export_stage cong: option.case_cong prod.case_cong bool.case_cong sum.case_cong if_cong Option.bind_cong)

lemma smooth_loop_total:
  "(\<forall>x. has_smoothed (tri l) x) \<Longrightarrow> (\<forall>x. smoothed (tri l) x = Some (f x)) \<Longrightarrow>
   smooth_loop l n m = Some ((f ^^ n) m)"
  by (induction n arbitrary: m) (simp_all add: funpow_swap1)

lemma smooth_loop_incapable: "\<not> has_smoothed (tri l) m \<Longrightarrow> smooth_loop l n m = Some m"
  by (cases n) simp_all

text \<open>
  C8. The smoothing stage leaves the mesh of a point-cloud input untouched, so that
  a conversion of a point cloud does not depend on the smoothing capability at all; on
  the original-mesh path it is \<open>smooth_mesh_basic\<close>. The iteration counts are
  light 1, medium 2, high 3, ultra 5: with a smoothing pass \<open>f\<close> that is always
  available the result is \<open>f\<close> iterated that many times. Without the capability, or
  when a pass raises, the unmodified mesh is returned.
\<close>

theorem smoothing_stage_correct:
  "(load_ply_file l inp = Inr d \<and> is_point_cloud d \<longrightarrow>
      convert_ply (with_smoothing l h s) inp out fmts cid level =
      convert_ply l inp out fmts cid level) \<and>
   smoothing_stage l True m level = m \<and>
   smoothing_stage l False m level = smooth_mesh_basic l m level \<and>
   smooth_iterations ''light'' = 1 \<and> smooth_iterations ''medium'' = 2 \<and>
   smooth_iterations ''high'' = 3 \<and> smooth_iterations ''ultra'' = 5 \<and>
   ((\<forall>x. has_smoothed (tri l) x) \<and> (\<forall>x. smoothed (tri l) x = Some (f x)) \<longrightarrow>
      smooth_mesh_basic l m level = (f ^^ smooth_iterations level) m) \<and>
   (\<not> has_smoothed (tri l) m \<longrightarrow> smooth_mesh_basic l m level = m) \<and>
   (smooth_loop l (smooth_iterations level) m = None \<longrightarrow> smooth_mesh_basic l m level = m)"
proof -
  have a: "load_ply_file l inp = Inr d \<and> is_point_cloud d \<longrightarrow>
      convert_ply (with_smoothing l h s) inp out fmts cid level =
      convert_ply l inp out fmts cid level"
    using ws_convert by blast
  have b: "smoothing_stage l True m level = m"
    "smoothing_stage l False m level = smooth_mesh_basic l m level"
    by (simp_all add: smoothing_stage_def)
  have c: "(\<forall>x. has_smoothed (tri l) x) \<and> (\<forall>x. smoothed (tri l) x = Some (f x)) \<longrightarrow>
      smooth_mesh_basic l m level = (f ^^ smooth_iterations level) m"
  proof (intro impI)
    assume "(\<forall>x. has_smoothed (tri l) x) \<and> (\<forall>x. smoothed (tri l) x = Some (f x))"
    then have "smooth_loop l (smooth_iterations level) m = Some ((f ^^ smooth_iterations level) m)"
      using smooth_loop_total [of l f] by blast
    then show "smooth_mesh_basic l m level = (f ^^ smooth_iterations level) m"
      by (simp add: smooth_mesh_basic_def)
  qed
  have d: "\<not> has_smoothed (tri l) m \<longrightarrow> smooth_mesh_basic l m level = m"
    by (simp add: smooth_mesh_basic_def smooth_loop_incapable)
  have e: "smooth_loop l (smooth_iterations level) m = None \<longrightarrow> smooth_mesh_basic l m level = m"
    by (simp add: smooth_mesh_basic_def)
  from a b c d e smooth_iterations_levels show ?thesis by blast
qed

lemma demo_sel:
  "tri demo_lib = demo_trimesh" "o3d demo_lib = no_open3d"
  "has_open3d demo_lib = False" "has_scipy demo_lib = False"
  "trimesh_load demo_lib = demo_load" "plyfile_read demo_lib = (\<lambda>p. None)"
  "mkdir demo_lib = (\<lambda>p. True)" "path_exists demo_lib = (\<lambda>p. True)"
  by (simp_all add: demo_lib_def)

theorem smoothing_stage_correct_witness:
  "smooth_mesh_basic demo_lib plates ''medium'' =
     plates\<lparr>vertices := [(1/4, 0, 1/4), (-1/4, 1/4, 1/4), (0, -1/4, 1/4),
                            (1/4, 0, -1/4), (0, -1/4, -1/4), (-1/4, 1/4, -1/4)]\<rparr> \<and>
   smooth_mesh_basic (with_smoothing demo_lib (\<lambda>m. False) (\<lambda>m. None)) plates ''ultra'' = plates \<and>
   convert_ply (with_smoothing demo_lib (\<lambda>m. False) (\<lambda>m. None))
      ''uploads/job1_cloud.ply'' ''outputs'' [''stl''] ''job1'' ''high'' =
   convert_ply demo_lib ''uploads/job1_cloud.ply'' ''outputs'' [''stl''] ''job1'' ''high''"
proof -
  let ?f = "\<lambda>m. m\<lparr>vertices := map (\<lambda>(x, y, z). (x / 2, y / 2, z / 2)) (vertices m)\<rparr>"
  have cap: "(\<forall>x. has_smoothed (tri demo_lib) x) \<and> (\<forall>x. smoothed (tri demo_lib) x = Some (?f x))"
    by (simp add: demo_sel demo_trimesh_def)
  have inc: "\<not> has_smoothed (tri (with_smoothing demo_lib (\<lambda>m. False) (\<lambda>m. None))) plates"
    by (simp add: with_smoothing_def)
  have ld: "load_ply_file demo_lib ''uploads/job1_cloud.ply'' =
           Inr (make_ply_data plate_vertices None None) \<and>
           is_point_cloud (make_ply_data plate_vertices None None)"
    by (simp add: load_ply_file_def demo_sel demo_load_def make_ply_data_def)
  have 1: "smooth_mesh_basic demo_lib plates ''medium'' = (?f ^^ 2) plates"
    using smoothing_stage_correct [where l = demo_lib and m = plates and f = "?f" and level = "''medium''"] cap by simp
  have 2: "smooth_mesh_basic (with_smoothing demo_lib (\<lambda>m. False) (\<lambda>m. None)) plates ''ultra'' = plates"
    using smoothing_stage_correct [where l = "with_smoothing demo_lib (\<lambda>m. False) (\<lambda>m. None)"
        and m = plates and level = "''ultra''"] inc
    by simp
  have 3: "convert_ply (with_smoothing demo_lib (\<lambda>m. False) (\<lambda>m. None))
      ''uploads/job1_cloud.ply'' ''outputs'' [''stl''] ''job1'' ''high'' =
   convert_ply demo_lib ''uploads/job1_cloud.ply'' ''outputs'' [''stl''] ''job1'' ''high''"
    using smoothing_stage_correct [where l = demo_lib and inp = "''uploads/job1_cloud.ply''"
        and d = "make_ply_data plate_vertices None None" and h = "\<lambda>m. False" and s = "\<lambda>m. None"] ld
    by simp
  from 1 2 3 show ?thesis
    by (simp add: plates_def plate_vertices_def numeral_2_eq_2)
qed

section \<open>Properties of the orientation fix\<close>

lemma fix_result:
  "fix_face_orientation_and_normals l m =
     (case double_sided_step l (snd (unify_normals (tri l) (snd (fix_normals (tri l) m)))) of
        Some (Some d) \<Rightarrow> Inr d
      | _ \<Rightarrow> Inr (snd (cleanup l (snd (unify_normals (tri l) (snd (fix_normals (tri l) m)))))))"
  by (simp add: fix_face_orientation_and_normals_def fix_body_def Let_def
      split: option.splits prod.splits bool.splits)




lemma all_faces_nth:
  "i < length F \<Longrightarrow> all_faces F ! i = F ! i \<and>
     all_faces F ! (length F + i) = (case F ! i of (a, b, c) \<Rightarrow> (a, c, b))"
  by (simp add: all_faces_def flipped_faces_def nth_append)

text \<open>
  C4. The face list handed to the constructor of the double-sided mesh has twice the
  faces of \<open>F\<close>: face \<open>i\<close> of \<open>F\<close> unchanged at position \<open>i\<close>, and its twin with
  the last two corners exchanged at position \<open>length F + i\<close>. The double-sided mesh
  before cleanup is the constructor's mesh on these faces, with the vertex colours of the
  source mesh when it has some; the colour transfer changes neither vertices nor faces.
\<close>

theorem double_sided_faces:
  "length (all_faces F) = 2 * length F \<and>
   (\<forall>i < length F. all_faces F ! i = F ! i \<and>
        all_faces F ! (length F + i) = (case F ! i of (a, b, c) \<Rightarrow> (a, c, b))) \<and>
   (\<forall>d. double_sided_mesh l m vs F = Some d \<longrightarrow>
        (\<exists>d0. trimesh_new (tri l) vs (all_faces F) = Some d0 \<and> d = transfer_colors m d0)) \<and>
   (\<forall>c. vertex_colors m = Some c \<longrightarrow> vertex_colors (transfer_colors m d0) = Some c) \<and>
   vertices (transfer_colors m d0) = vertices d0 \<and> faces (transfer_colors m d0) = faces d0"
proof -
  have a: "length (all_faces F) = 2 * length F"
    by (simp add: all_faces_def flipped_faces_def)
  have b: "\<forall>i < length F. all_faces F ! i = F ! i \<and>
        all_faces F ! (length F + i) = (case F ! i of (a, b, c) \<Rightarrow> (a, c, b))"
    using all_faces_nth by blast
  have c: "\<forall>d. double_sided_mesh l m vs F = Some d \<longrightarrow>
        (\<exists>d0. trimesh_new (tri l) vs (all_faces F) = Some d0 \<and> d = transfer_colors m d0)"
    by (auto simp: double_sided_mesh_def split: Option.bind_splits)
  have d: "\<forall>c. vertex_colors m = Some c \<longrightarrow> vertex_colors (transfer_colors m d0) = Some c"
    by (simp add: transfer_colors_def)
  have e: "vertices (transfer_colors m d0) = vertices d0 \<and> faces (transfer_colors m d0) = faces d0"
    by (simp add: transfer_colors_def split: option.splits)
  from a b c d e show ?thesis by blast
qed


lemmas geom_defs = dot_products_def mean_axis0_def np_mean_def index_faces_def face_corners_def
  py_index_def corner_mean_def vsub_def vdiv_def vnorm_def vmul_def vsum_def broadcast_mul_def

lemma plates_dots:
  "dot_products plate_vertices plate_faces plate_normals =
     Some [100000000 / 100000001, 100000000 / 100000001]"
  by (simp add: geom_defs plate_vertices_def plate_faces_def plate_normals_def)


lemma demo_cleanup_plates: "cleanup demo_lib plates = (True, plates)"
  by (simp add: cleanup_def demo_sel demo_trimesh_def plates_def plate_faces_def)



theorem double_sided_faces_witness:
  "all_faces [(0, 2, 1), (3, 5, 4)] = [(0, 2, 1), (3, 5, 4), (0, 1, 2), (3, 4, 5)] \<and>
   double_sided_mesh demo_lib inverted_plates plate_vertices [(0, 2, 1), (3, 5, 4)] =
     Some \<lparr>vertices = plate_vertices, faces = [(0, 2, 1), (3, 5, 4), (0, 1, 2), (3, 4, 5)],
           vertex_colors = Some plate_colors\<rparr>"
  using double_sided_faces [where F = "[(0, 2, 1), (3, 5, 4)]" and l = demo_lib
      and m = inverted_plates and vs = plate_vertices]
  by (simp add: all_faces_def flipped_faces_def double_sided_mesh_def transfer_colors_def
      demo_sel demo_trimesh_def inverted_plates_def)



section \<open>Properties of the reconstruction\<close>

lemma to_trimesh_geometry:
  assumes "\<forall>v f r. v \<noteq> [] \<and> f \<noteq> [] \<and> trimesh_new (tri l) v f = Some r \<longrightarrow> has_geometry r"
    and "to_trimesh l m = Some (Some r)"
  shows "has_geometry r"
proof -
  from assms(2) obtain r0 where r0: "trimesh_new (tri l) (o_vertices m) (o_triangles m) = Some r0"
    and ne: "o_vertices m \<noteq> []" "o_triangles m \<noteq> []"
    and r: "r = r0 \<or> (\<exists>c. r = r0\<lparr>vertex_colors := Some c\<rparr>)"
    by (auto simp: to_trimesh_def Let_def split: if_splits option.splits)
  from assms(1) r0 ne have "has_geometry r0" by blast
  with r show ?thesis by (auto simp: has_geometry_def)
qed

lemma poisson_geometry:
  assumes "\<forall>v f r. v \<noteq> [] \<and> f \<noteq> [] \<and> trimesh_new (tri l) v f = Some r \<longrightarrow> has_geometry r"
    and "precise_poisson_reconstruction l vs cs level = Some r"
  shows "has_geometry r"
proof -
  from assms(2) obtain m where "to_trimesh l m = Some (Some r)"
    by (auto simp: precise_poisson_reconstruction_def poisson_body_def Let_def
        split: if_splits option.splits Option.bind_splits prod.splits)
  with assms(1) show ?thesis by (rule to_trimesh_geometry)
qed

lemma basic_body_geometry:
  assumes "\<forall>m0 h. convex_hull (tri l) m0 = Some h \<longrightarrow> has_geometry h"
    and "basic_body l pts cs = Some r"
  shows "has_geometry r"
proof -
  from assms(2) obtain m0 h where h: "convex_hull (tri l) m0 = Some h"
    and r: "r = h \<or> (\<exists>c. r = h\<lparr>vertex_colors := Some c\<rparr>)"
    by (auto simp: basic_body_def split: if_splits option.splits Option.bind_splits)
  from assms(1) h have "has_geometry h" by blast
  with r show ?thesis by (auto simp: has_geometry_def)
qed

text \<open>
  C7. The reconstruction stage of a point cloud always ends with a mesh that has at
  least one vertex and one face, and never with an exception: Poisson reconstruction
  returns a mesh only after checking that it has vertices and faces, otherwise the convex
  hull is taken, and when that raises, the unit box. What the libraries contribute is
  assumed: the trimesh constructor keeps a non-empty mesh non-empty, a convex hull that
  is returned has vertices and faces, and the box is created.
\<close>

theorem reconstruction_yields_geometry:
  assumes "\<forall>v f r. v \<noteq> [] \<and> f \<noteq> [] \<and> trimesh_new (tri l) v f = Some r \<longrightarrow> has_geometry r"
    and "\<forall>m0 h. convex_hull (tri l) m0 = Some h \<longrightarrow> has_geometry h"
    and "\<exists>b. creation_box (tri l) = Some b \<and> has_geometry b"
  shows "(\<exists>r. fst (reconstruct_point_cloud l vs cs level) = Inr r \<and> has_geometry r) \<and>
         (is_point_cloud d \<longrightarrow> (\<exists>r. fst (build_mesh l d level) = Inr r \<and> has_geometry r))"
proof -
  have rec: "\<exists>r. fst (reconstruct_point_cloud l vs cs level) = Inr r \<and> has_geometry r" for vs cs
  proof (cases "precise_poisson_reconstruction l vs cs level")
    case (Some r)
    with assms(1) have "has_geometry r" by (rule poisson_geometry)
    with Some show ?thesis by (simp add: reconstruct_point_cloud_def)
  next
    case None
    show ?thesis
    proof (cases "basic_body l vs cs")
      case (Some r)
      with assms(2) have "has_geometry r" by (rule basic_body_geometry)
      with Some None show ?thesis
        by (simp add: reconstruct_point_cloud_def create_mesh_from_points_basic_def)
    next
      case nb: None
      from assms(3) obtain b where "creation_box (tri l) = Some b" "has_geometry b" by blast
      with None nb show ?thesis
        by (simp add: reconstruct_point_cloud_def create_mesh_from_points_basic_def)
    qed
  qed
  then show ?thesis by (simp add: build_mesh_def)
qed

theorem reconstruction_yields_geometry_witness:
  "fst (reconstruct_point_cloud demo_lib plate_vertices None ''medium'') =
     Inr \<lparr>vertices = plate_vertices,
          faces = [(0, 1, 2), (3, 4, 5), (0, 3, 1), (1, 3, 5), (1, 5, 2), (2, 5, 4), (2, 4, 0), (0, 4, 3)],
          vertex_colors = None\<rparr> \<and>
   fst (reconstruct_point_cloud demo_lib [(0, 0, 0)] None ''medium'') = Inr unit_box \<and>
   has_geometry unit_box"
proof -
  have c1: "\<forall>v f r. v \<noteq> [] \<and> f \<noteq> [] \<and> trimesh_new (tri demo_lib) v f = Some r \<longrightarrow> has_geometry r"
    by (auto simp: demo_sel demo_trimesh_def has_geometry_def Suc_le_eq)
  have c2: "\<forall>m0 h. convex_hull (tri demo_lib) m0 = Some h \<longrightarrow> has_geometry h"
    by (auto simp: demo_sel demo_trimesh_def has_geometry_def split: if_splits)
  have c3: "\<exists>b. creation_box (tri demo_lib) = Some b \<and> has_geometry b"
    by (simp add: demo_sel demo_trimesh_def has_geometry_def unit_box_def)
  have "\<exists>r. fst (reconstruct_point_cloud demo_lib [(0, 0, 0)] None ''medium'') = Inr r \<and> has_geometry r"
    using reconstruction_yields_geometry [OF c1 c2 c3] by blast
  then show ?thesis
    by (simp add: reconstruct_point_cloud_def precise_poisson_reconstruction_def
        create_mesh_from_points_basic_def basic_body_def demo_sel demo_trimesh_def
        plate_vertices_def)
qed

section \<open>Properties of the export and of the progress reports\<close>

subsection \<open>The export loop\<close>

lemma set_update_cases:
  "x \<in> set (AList.update k v al) \<Longrightarrow> x = (k, v) \<or> x \<in> set al"
  by (induction al) (auto split: if_splits)

lemma export_loop_Cons:
  "fst (export_loop l m od cid n i (f # fs) res) =
     fst (export_loop l m od cid n (Suc i) fs
       (if exported l m od cid f then AList.update f (export_path od cid f) res else res))"
  "snd (export_loop l m od cid n i (f # fs) res) =
     export_progress i n # snd (export_loop l m od cid n (Suc i) fs
       (if exported l m od cid f then AList.update f (export_path od cid f) res else res))"
  by (simp_all add: Let_def case_prod_beta exported_def)

lemma export_loop_keys:
  "fst ` set (fst (export_loop l m od cid n i fmts res)) =
     fst ` set res \<union> {f \<in> set fmts. exported l m od cid f}"
proof (induction fmts arbitrary: i res)
  case Nil
  then show ?case by simp
next
  case (Cons f fmts)
  show ?case
    unfolding export_loop_Cons Cons by (auto simp: dom_update)
qed

lemma export_loop_paths:
  assumes "\<forall>(f, p) \<in> set res. p = export_path od cid f"
  shows "\<forall>(f, p) \<in> set (fst (export_loop l m od cid n i fmts res)). p = export_path od cid f"
  using assms
proof (induction fmts arbitrary: i res)
  case Nil
  then show ?case by simp
next
  case (Cons f fmts)
  have "\<forall>(g, p) \<in> set (AList.update f (export_path od cid f) res). p = export_path od cid g"
    using Cons.prems by (auto dest: set_update_cases)
  then show ?case
    unfolding export_loop_Cons using Cons.IH Cons.prems by (simp del: export_loop.simps)
qed

lemma export_loop_trace:
  "snd (export_loop l m od cid n i fmts res) = map (\<lambda>k. export_progress k n) [i ..< i + length fmts]"
proof (induction fmts arbitrary: i res)
  case Nil
  then show ?case by simp
next
  case (Cons f fmts)
  show ?case
    unfolding export_loop_Cons Cons by (simp add: upt_conv_Cons del: upt_Suc)
qed

lemma export_progress_mono: "i \<le> j \<Longrightarrow> export_progress i n \<le> export_progress j n"
  unfolding export_progress_def
  by (intro add_left_mono floor_mono mult_right_mono divide_right_mono) simp_all

lemma export_progress_bounds:
  assumes "i < n"
  shows "80 \<le> export_progress i n \<and> export_progress i n \<le> 95"
proof -
  have "0 \<le> real (i + 1) / real n * 15" by simp
  then have lo: "0 \<le> \<lfloor>real (i + 1) / real n * 15\<rfloor>" by simp
  have "real (i + 1) / real n \<le> 1" using assms by simp
  then have "real (i + 1) / real n * 15 \<le> 1 * 15" by (intro mult_right_mono) simp_all
  then have "real (i + 1) / real n * 15 \<le> 15" by simp
  then have "\<lfloor>real (i + 1) / real n * 15\<rfloor> \<le> 15" by (simp add: floor_le_iff)
  with lo show ?thesis by (simp add: export_progress_def)
qed

lemma export_trace_sorted:
  "sorted (map (\<lambda>k. export_progress k n) [i ..< j])"
  by (simp add: sorted_map sorted_wrt_iff_nth_less export_progress_mono)

lemma export_loop_trace_props:
  "sorted (snd (export_loop l m od cid (length fmts) 0 fmts [])) \<and>
   set (snd (export_loop l m od cid (length fmts) 0 fmts [])) \<subseteq> {80..95}"
  using export_progress_bounds [of _ "length fmts"]
  by (auto simp: export_loop_trace export_trace_sorted)


subsection \<open>The export stage\<close>

lemma export_stage_Inl:
  "(\<exists>e. fst (export_stage l m od fmts cid) = Inl e) \<longleftrightarrow>
     (\<not> mkdir l od \<or> (\<forall>f \<in> set fmts. \<not> exported l m od cid f))"
proof -
  let ?res = "fst (export_loop l m od cid (length fmts) 0 fmts [])"
  have "(?res = []) = (fst ` set ?res = {})" by simp
  also have "\<dots> = (\<forall>f \<in> set fmts. \<not> exported l m od cid f)"
    unfolding export_loop_keys by auto
  finally show ?thesis
    by (auto simp: export_stage_def case_prod_beta)
qed

lemma export_stage_Inr:
  assumes "fst (export_stage l m od fmts cid) = Inr res"
  shows "res \<noteq> [] \<and> fst ` set res = {f \<in> set fmts. exported l m od cid f} \<and>
         (\<forall>(f, p) \<in> set res. p = export_path od cid f)"
proof -
  let ?res = "fst (export_loop l m od cid (length fmts) 0 fmts [])"
  from assms have r: "res = ?res" "res \<noteq> []"
    by (auto simp: export_stage_def case_prod_beta split: if_splits)
  have "\<forall>(f, p) \<in> set ?res. p = export_path od cid f"
    by (rule export_loop_paths) simp
  with r show ?thesis by (simp add: export_loop_keys)
qed

lemma export_stage_trace:
  "(case export_stage l m od fmts cid of
      (Inr r, t) \<Rightarrow> \<exists>xs. t = xs @ [100] \<and> sorted xs \<and> set xs \<subseteq> {80..95}
    | (Inl e, t) \<Rightarrow> sorted t \<and> set t \<subseteq> {80..95})"
  using export_loop_trace_props [of l m od cid fmts]
  by (simp add: export_stage_def case_prod_beta)

subsection \<open>The progress of a conversion\<close>

lemma build_mesh_trace:
  "(case build_mesh l d level of
      (Inr r, t) \<Rightarrow> t \<in> {[25, 35], [25, 45], [25, 40]}
    | (Inl e, t) \<Rightarrow> t \<in> {[25, 35], [25]})"
  by (simp add: build_mesh_def reconstruct_point_cloud_def
      split: option.splits sum.splits)

lemma sorted_stage:
  assumes "tb \<in> {[25, 35], [25, 45], [25, 40 :: int]}" "sorted xs" "set xs \<subseteq> {80..95}"
  shows "sorted ([5, 15] @ tb @ [55, 65, 75, 80] @ xs)" "sorted ([5, 15] @ tb @ [55, 65, 75, 80] @ xs @ [100])"
    "set ([5, 15] @ tb @ [55, 65, 75, 80] @ xs) \<subseteq> {5..95}"
proof -
  have b: "\<And>x. x \<in> set xs \<Longrightarrow> 80 \<le> x \<and> x \<le> 95" using assms(3) by auto
  show "sorted ([5, 15] @ tb @ [55, 65, 75, 80] @ xs)"
    using assms(1,2) b by (fastforce simp: sorted_append)
  show "sorted ([5, 15] @ tb @ [55, 65, 75, 80] @ xs @ [100])"
    using assms(1,2) b by (fastforce simp: sorted_append)
  show "set ([5, 15] @ tb @ [55, 65, 75, 80] @ xs) \<subseteq> {5..95}"
    using assms(1) b by fastforce
qed

lemma fix_total: "\<exists>r. fix_face_orientation_and_normals l m = Inr r"
  by (simp add: fix_result split: option.splits)

lemma convert_try_trace:
  "(case convert_try l inp out fmts cid level of
      (Inr r, t) \<Rightarrow> sorted t \<and> hd t = 5 \<and> last t = 100
    | (Inl e, t) \<Rightarrow> sorted t \<and> hd t = 5 \<and> t \<noteq> [] \<and> set t \<subseteq> {5..95})"
proof (cases "load_ply_file l inp")
  case (Inl e)
  then show ?thesis by (simp add: convert_try_def)
next
  case (Inr d)
  show ?thesis
  proof (cases "build_mesh l d level")
    case (Pair rb tb)
    show ?thesis
    proof (cases rb)
      case (Inl e)
      with Pair Inr build_mesh_trace [of l d level] show ?thesis
        by (auto simp: convert_try_def)
    next
      case rbr: (Inr m0)
      with Pair build_mesh_trace [of l d level]
      have tb: "tb \<in> {[25, 35], [25, 45], [25, 40]}" by simp
      obtain m1 where m1: "fix_face_orientation_and_normals l m0 = Inr m1"
        using fix_total [of l m0] by blast
      let ?m = "finish_mesh l (is_point_cloud d) m1 level"
      obtain re te where e: "export_stage l ?m out fmts cid = (re, te)" by (cases "export_stage l ?m out fmts cid")
      have ct: "convert_try l inp out fmts cid level = (re, [5, 15] @ tb @ [55, 65, 75, 80] @ te)"
        using Inr Pair rbr m1 e by (simp add: convert_try_def)
      show ?thesis
      proof (cases re)
        case (Inl err)
        with e export_stage_trace [of l ?m out fmts cid]
        have "sorted te" "set te \<subseteq> {80..95}" by simp_all
        from sorted_stage(1,3) [OF tb this] Inl show ?thesis
          unfolding ct by simp
      next
        case (Inr res)
        with e export_stage_trace [of l ?m out fmts cid]
        obtain xs where xs: "te = xs @ [100]" "sorted xs" "set xs \<subseteq> {80..95}" by auto
        from sorted_stage(2) [OF tb xs(2,3)] Inr show ?thesis
          unfolding ct xs(1) by simp
      qed
    qed
  qed
qed


subsection \<open>The job\<close>

lemma run_callbacks_snoc:
  "run_callbacks cid st (ps @ [p]) = progress_callback cid (run_callbacks cid st ps) p"
  by (simp add: run_callbacks_def)

lemma run_callbacks_results: "conversion_results (run_callbacks cid st ps) = conversion_results st"
  by (induction ps rule: rev_induct)
    (simp_all add: run_callbacks_snoc, simp_all add: run_callbacks_def progress_callback_def split: option.splits)

lemma run_callbacks_entry:
  assumes "conversion_progress st cid = Some e"
  shows "conversion_progress (run_callbacks cid st ps) cid =
     Some (if ps = [] then e else e\<lparr>progress := min (last ps) 100, status := ''converting''\<rparr>)"
proof (induction ps rule: rev_induct)
  case Nil
  with assms show ?case by (simp add: run_callbacks_def)
next
  case (snoc p ps)
  then show ?case
    by (simp add: run_callbacks_snoc progress_callback_def)
qed

lemma convert_ply_trace:
  "(case convert_ply l inp out fmts cid level of
      (Inr res, t) \<Rightarrow> sorted t \<and> hd t = 5 \<and> last t = 100
    | (Inl e, t) \<Rightarrow>
        \<exists>pre. t = pre @ [0] \<and> pre \<noteq> [] \<and> sorted pre \<and> hd pre = 5 \<and> set pre \<subseteq> {5..95})"
  using convert_try_trace [of l inp out fmts cid level]
  by (auto simp: convert_ply_def split: prod.splits sum.splits)

lemma job_try_registered:
  assumes "conversion_progress st cid = Some e0"
  shows "(case job_try env l cid inp fmts level st of
            (ok, st1, ps) \<Rightarrow>
              \<exists>e1. conversion_progress st1 cid = Some e1 \<and> ps \<noteq> [] \<and>
                (if ok then status e1 = ''completed'' \<and> progress e1 = 100
                 else status e1 = ''converting'' \<and> progress e1 = min (last ps) 100))"
  using assms
  by (auto simp: job_try_def Let_def run_callbacks_entry run_callbacks_results
      split: prod.splits sum.splits option.splits)

lemma job_try_failed_conversion:
  assumes "prechecks env l inp" "fst (convert_ply l inp ''outputs'' fmts cid level) = Inl err"
  shows "\<exists>st1 ps. job_try env l cid inp fmts level st = (False, st1, ps) \<and> last ps = 0"
proof -
  obtain r t where c: "convert_ply l inp ''outputs'' fmts cid level = (r, t)"
    by (cases "convert_ply l inp ''outputs'' fmts cid level")
  with assms(2) have r: "r = Inl err" by simp
  from convert_ply_trace [of l inp "''outputs''" fmts cid level] c r
  obtain pre where "t = pre @ [0]" by auto
  with assms(1) c r show ?thesis
    by (auto simp: job_try_def prechecks_def Let_def)
qed


lemma job_after_conversion:
  assumes "prechecks env l inp" "conversion_progress st cid = Some e0"
    and "fst (convert_ply l inp ''outputs'' fmts cid level) = Inr res"
  shows "(verify_results l res \<noteq> [] \<longrightarrow>
            conversion_results (convert_file_async_debug env l cid inp fmts level st) cid =
              Some (verify_results l res) \<and>
            (\<exists>e'. conversion_progress (convert_file_async_debug env l cid inp fmts level st) cid = Some e' \<and>
                  status e' = ''completed'')) \<and>
         (verify_results l res = [] \<longrightarrow>
            conversion_results (convert_file_async_debug env l cid inp fmts level st) cid =
              conversion_results st cid \<and>
            (\<exists>e'. conversion_progress (convert_file_async_debug env l cid inp fmts level st) cid = Some e' \<and>
                  status e' = ''error''))"
proof -
  obtain r t where c: "convert_ply l inp ''outputs'' fmts cid level = (r, t)"
    by (cases "convert_ply l inp ''outputs'' fmts cid level")
  with assms(3) have r: "r = Inr res" by simp
  show ?thesis
    using assms(1,2) c r
    by (auto simp: convert_file_async_debug_def job_try_def prechecks_def Let_def
        run_callbacks_entry run_callbacks_results)
qed

lemma convert_ply_Inr:
  assumes "fst (convert_ply l inp out fmts cid level) = Inr res"
  shows "\<exists>m. fst (export_stage l m out fmts cid) = Inr res"
  using assms
  apply (auto simp: convert_ply_def convert_try_def split: prod.splits sum.splits)
  apply (metis fst_conv)
  done

lemma verify_results_sound:
  "\<forall>(f, p) \<in> set (verify_results l res). (f, p) \<in> set res \<and> p \<noteq> [] \<and> path_exists l p"
  by (auto simp: verify_results_def)

text \<open>
  C5. The export loop goes through every requested format whatever happened to the
  ones before: it reports one percentage per format, and the keys of its result are
  exactly the formats whose export completed, each with its own path. The export stage
  raises exactly when the output directory cannot be created or no format was exported;
  otherwise it returns that non-empty result, which is what \<open>convert_ply\<close> returns. The
  job keeps only the entries whose file exists: with at least one of them it stores them
  and completes, with none it ends in error and stores nothing.
\<close>

theorem export_skips_failures:
  "fst ` set (fst (export_loop l m od cid n i fmts [])) = {f \<in> set fmts. exported l m od cid f} \<and>
   length (snd (export_loop l m od cid n i fmts [])) = length fmts \<and>
   ((\<exists>e. fst (export_stage l m od fmts cid) = Inl e) \<longleftrightarrow>
      (\<not> mkdir l od \<or> (\<forall>f \<in> set fmts. \<not> exported l m od cid f))) \<and>
   (\<forall>r. fst (export_stage l m od fmts cid) = Inr r \<longrightarrow>
      r \<noteq> [] \<and> fst ` set r = {f \<in> set fmts. exported l m od cid f} \<and>
      (\<forall>(f, p) \<in> set r. p = export_path od cid f)) \<and>
   (\<forall>r. fst (convert_ply l inp od fmts cid level) = Inr r \<longrightarrow>
      (\<exists>m'. fst (export_stage l m' od fmts cid) = Inr r)) \<and>
   (\<forall>(f, p) \<in> set (verify_results l res). (f, p) \<in> set res \<and> p \<noteq> [] \<and> path_exists l p) \<and>
   (prechecks env l inp \<and> conversion_progress st cid = Some e0 \<and>
    fst (convert_ply l inp ''outputs'' fmts cid level) = Inr res \<longrightarrow>
      (verify_results l res \<noteq> [] \<longrightarrow>
         conversion_results (convert_file_async_debug env l cid inp fmts level st) cid =
           Some (verify_results l res) \<and>
         (\<exists>e'. conversion_progress (convert_file_async_debug env l cid inp fmts level st) cid = Some e' \<and>
               status e' = ''completed'')) \<and>
      (verify_results l res = [] \<longrightarrow>
         conversion_results (convert_file_async_debug env l cid inp fmts level st) cid =
           conversion_results st cid \<and>
         (\<exists>e'. conversion_progress (convert_file_async_debug env l cid inp fmts level st) cid = Some e' \<and>
               status e' = ''error'')))"
proof -
  have a: "fst ` set (fst (export_loop l m od cid n i fmts [])) = {f \<in> set fmts. exported l m od cid f}"
    by (simp add: export_loop_keys)
  have b: "length (snd (export_loop l m od cid n i fmts [])) = length fmts"
    by (simp add: export_loop_trace)
  note c = export_stage_Inl [of l m od fmts cid]
  have d: "\<forall>r. fst (export_stage l m od fmts cid) = Inr r \<longrightarrow>
      r \<noteq> [] \<and> fst ` set r = {f \<in> set fmts. exported l m od cid f} \<and>
      (\<forall>(f, p) \<in> set r. p = export_path od cid f)"
    using export_stage_Inr [of l m od fmts cid] by blast
  have e: "\<forall>r. fst (convert_ply l inp od fmts cid level) = Inr r \<longrightarrow>
      (\<exists>m'. fst (export_stage l m' od fmts cid) = Inr r)"
    using convert_ply_Inr [of l inp od fmts cid level] by blast
  note f = verify_results_sound [of l res]
  note g = job_after_conversion [of env l inp st cid e0 fmts level res]
  from a b c d e f g show ?thesis by blast
qed

text \<open>
  C6 (as amended). Within one call of \<open>convert_ply\<close> the percentages passed to the
  progress callback are non-decreasing up to the last one: a successful conversion starts
  at 5 and ends with 100; a failed one reports percentages between 5 and 95 in
  non-decreasing order and then, as its last callback, the error message with the
  percentage 0. A registered job ends with status \<open>completed\<close> and percentage 100, or with
  status \<open>error\<close>; when the converter was called and failed, the stored percentage is
  the 0 of that last callback.
\<close>

theorem progress_within_conversion:
  "(case convert_ply l inp out fmts cid level of
      (Inr res, t) \<Rightarrow> sorted t \<and> hd t = 5 \<and> last t = 100
    | (Inl e, t) \<Rightarrow>
        \<exists>pre. t = pre @ [0] \<and> pre \<noteq> [] \<and> sorted pre \<and> hd pre = 5 \<and> set pre \<subseteq> {5..95}) \<and>
   (conversion_progress st cid = Some e0 \<longrightarrow>
      (\<exists>e'. conversion_progress (convert_file_async_debug env l cid inp fmts level st) cid = Some e' \<and>
         (status e' = ''completed'' \<and> progress e' = 100 \<or> status e' = ''error'') \<and>
         (prechecks env l inp \<and> (\<exists>err. fst (convert_ply l inp ''outputs'' fmts cid level) = Inl err) \<longrightarrow>
            status e' = ''error'' \<and> progress e' = 0)))"
proof -
  have b: "\<exists>e'. conversion_progress (convert_file_async_debug env l cid inp fmts level st) cid = Some e' \<and>
         (status e' = ''completed'' \<and> progress e' = 100 \<or> status e' = ''error'') \<and>
         (prechecks env l inp \<and> (\<exists>err. fst (convert_ply l inp ''outputs'' fmts cid level) = Inl err) \<longrightarrow>
            status e' = ''error'' \<and> progress e' = 0)"
    if reg: "conversion_progress st cid = Some e0"
  proof -
    obtain ok st1 ps where j: "job_try env l cid inp fmts level st = (ok, st1, ps)"
      by (cases "job_try env l cid inp fmts level st") auto
    with job_try_registered [OF reg, of env l inp fmts level]
    obtain e1 where e1: "conversion_progress st1 cid = Some e1" "ps \<noteq> []"
      "if ok then status e1 = ''completed'' \<and> progress e1 = 100
       else status e1 = ''converting'' \<and> progress e1 = min (last ps) 100"
      by auto
    have fail: "ok = False \<and> last ps = 0"
      if "prechecks env l inp" "fst (convert_ply l inp ''outputs'' fmts cid level) = Inl err" for err
      using job_try_failed_conversion [OF that, of st] j by auto
    show ?thesis
      using j e1 fail
      by (cases ok) (auto simp: convert_file_async_debug_def)
  qed
  with convert_ply_trace [of l inp out fmts cid level] show ?thesis by blast
qed


subsection \<open>Examples\<close>

lemma demo_prechecks: "prechecks demo_env demo_lib inp"
  by (simp add: prechecks_def demo_env_def demo_sel)

lemma demo_missing:
  "convert_ply demo_lib ''uploads/missing.ply'' out fmts cid level =
     (Inl (RuntimeError ''Conversion failed: Failed to load PLY file''), [5, 0])"
  by (simp add: convert_ply_def convert_try_def load_ply_file_def demo_sel demo_load_def)

lemma demo_load_plates:
  "load_ply_file demo_lib ''uploads/job1_plates.ply'' =
     Inr (make_ply_data plate_vertices (Some plate_faces) None)"
  by (simp add: load_ply_file_def demo_sel demo_load_def plate_faces_def)

lemma demo_build_plates:
  "build_mesh demo_lib (make_ply_data plate_vertices (Some plate_faces) None) level =
     (Inr plates, [25, 40])"
  by (simp add: build_mesh_def make_ply_data_def mesh_from_data_def demo_sel demo_trimesh_def
      plates_def plate_faces_def)

lemma demo_fix_plates: "fix_face_orientation_and_normals demo_lib plates = Inr plates"
  using plates_dots demo_cleanup_plates
  by (simp add: fix_result double_sided_step_def demo_sel demo_trimesh_def demo_normals_def
      plates_def plate_normals_def outward_ratio_def)

lemma demo_export:
  "export_stage demo_lib m ''outputs'' [''stl'', ''badfmt''] ''job1'' =
     (Inr [(''stl'', ''outputs/job1_smooth.stl'')], [87, 95, 100])"
  by (simp add: export_stage_def demo_sel demo_trimesh_def export_path_def export_progress_def
      rsplit_last_def Let_def)

lemma demo_convert_plates:
  "convert_ply demo_lib ''uploads/job1_plates.ply'' ''outputs'' [''stl'', ''badfmt''] ''job1'' level =
     (Inr [(''stl'', ''outputs/job1_smooth.stl'')], [5, 15, 25, 40, 55, 65, 75, 80, 87, 95, 100])"
  by (simp add: convert_ply_def convert_try_def demo_load_plates demo_build_plates
      demo_fix_plates demo_export)

theorem export_skips_failures_witness:
  "fst (export_stage demo_lib plates ''outputs'' [''stl'', ''badfmt''] ''job1'') =
     Inr [(''stl'', ''outputs/job1_smooth.stl'')] \<and>
   \<not> exported demo_lib plates ''outputs'' ''job1'' ''badfmt'' \<and>
   conversion_results
     (convert_file_async_debug demo_env demo_lib ''job1'' ''uploads/job1_plates.ply''
        [''stl'', ''badfmt''] ''medium'' registered_state) ''job1'' =
     Some [(''stl'', ''outputs/job1_smooth.stl'')] \<and>
   (\<exists>e'. conversion_progress
     (convert_file_async_debug demo_env demo_lib ''job1'' ''uploads/job1_plates.ply''
        [''stl'', ''badfmt''] ''medium'' registered_state) ''job1'' = Some e' \<and>
      status e' = ''completed'')"
proof -
  have reg: "conversion_progress registered_state ''job1'' =
      Some \<lparr>status = ''starting'', progress = 0, input_file = ''plates.ply'',
            output_formats = [''stl''], smoothing_level = ''medium''\<rparr>"
    by (simp add: registered_state_def)
  have cv: "fst (convert_ply demo_lib ''uploads/job1_plates.ply'' ''outputs'' [''stl'', ''badfmt'']
      ''job1'' ''medium'') = Inr [(''stl'', ''outputs/job1_smooth.stl'')]"
    by (simp add: demo_convert_plates)
  have vr: "verify_results demo_lib [(''stl'', ''outputs/job1_smooth.stl'')] =
      [(''stl'', ''outputs/job1_smooth.stl'')]"
    by (simp add: verify_results_def demo_sel)
  have ex: "\<not> exported demo_lib plates ''outputs'' ''job1'' ''badfmt''"
    by (simp add: exported_def demo_sel demo_trimesh_def export_path_def rsplit_last_def)
  from export_skips_failures [where l = demo_lib and env = demo_env and st = registered_state
      and cid = "''job1''" and inp = "''uploads/job1_plates.ply''" and fmts = "[''stl'', ''badfmt'']"
      and level = "''medium''" and res = "[(''stl'', ''outputs/job1_smooth.stl'')]"
      and m = plates and od = "''outputs''"] demo_prechecks reg cv vr
  have "conversion_results
     (convert_file_async_debug demo_env demo_lib ''job1'' ''uploads/job1_plates.ply''
        [''stl'', ''badfmt''] ''medium'' registered_state) ''job1'' =
     Some [(''stl'', ''outputs/job1_smooth.stl'')] \<and>
   (\<exists>e'. conversion_progress
     (convert_file_async_debug demo_env demo_lib ''job1'' ''uploads/job1_plates.ply''
        [''stl'', ''badfmt''] ''medium'' registered_state) ''job1'' = Some e' \<and>
      status e' = ''completed'')"
    by simp
  with ex show ?thesis by (simp add: demo_export)
qed

theorem progress_within_conversion_witness:
  "\<exists>e'. conversion_progress
     (convert_file_async_debug demo_env demo_lib ''job1'' ''uploads/missing.ply''
        [''stl''] ''medium'' registered_state) ''job1'' = Some e' \<and>
      status e' = ''error'' \<and> progress e' = 0"
proof -
  have reg: "conversion_progress registered_state ''job1'' =
      Some \<lparr>status = ''starting'', progress = 0, input_file = ''plates.ply'',
            output_formats = [''stl''], smoothing_level = ''medium''\<rparr>"
    by (simp add: registered_state_def)
  have cv: "\<exists>err. fst (convert_ply demo_lib ''uploads/missing.ply'' ''outputs'' [''stl'']
      ''job1'' ''medium'') = Inl err"
    by (simp add: demo_missing)
  from progress_within_conversion [where l = demo_lib and env = demo_env and st = registered_state
      and cid = "''job1''" and inp = "''uploads/missing.ply''" and fmts = "[''stl'']"
      and level = "''medium''"] demo_prechecks reg cv
  show ?thesis by blast
qed

text \<open>
  C6 as stated fails: for an input that cannot be loaded the converter reports 5 and
  then 0, a decreasing sequence, and the whole job reports 5, 10, 15, 20, 5, 0; the last
  callback before the job is marked as failed sets the percentage to 0.
\<close>

theorem progress_monotone_counterexample:
  "convert_ply demo_lib ''uploads/missing.ply'' ''outputs'' [''stl''] ''job1'' ''medium'' =
     (Inl (RuntimeError ''Conversion failed: Failed to load PLY file''), [5, 0]) \<and>
   \<not> sorted [5, 0 :: int] \<and>
   snd (snd (job_try demo_env demo_lib ''job1'' ''uploads/missing.ply'' [''stl''] ''medium''
      registered_state)) = [5, 10, 15, 20, 5, 0] \<and>
   map_option progress (conversion_progress
     (convert_file_async_debug demo_env demo_lib ''job1'' ''uploads/missing.ply''
        [''stl''] ''medium'' registered_state) ''job1'') = Some 0"
  by (simp add: demo_missing job_try_def convert_file_async_debug_def demo_env_def demo_sel
      run_callbacks_def progress_callback_def registered_state_def empty_state_def)

section \<open>Properties of the upload handler\<close>

lemma upload_empty_default:
  "upload_file env l (req\<lparr>formats := []\<rparr>) st = upload_file env l (req\<lparr>formats := [''stl'']\<rparr>) st"
  by (simp add: upload_file_def Let_def)

lemma upload_started:
  assumes "upload_file env l req st = (resp, st', Some (cid, ip, vf, lv))"
  shows "vf \<noteq> [] \<and> set vf \<subseteq> set OUTPUT_FORMATS \<and>
     vf = filter (\<lambda>f. f \<in> set OUTPUT_FORMATS) (if formats req = [] then [''stl''] else formats req) \<and>
     lv \<in> set SMOOTHING_LEVELS \<and> file_accepted env l req"
  using assms
  by (auto simp: upload_file_def Let_def file_accepted_def SMOOTHING_LEVELS_def
      split: if_splits option.splits)

lemma upload_rejected:
  assumes "upload_file env l req st = (resp, st', None)"
  shows "st' = st \<and> (\<exists>msg code. resp = Error_response msg code)"
  using assms
  by (auto simp: upload_file_def Let_def split: if_splits)

lemma upload_invalid_formats:
  assumes "file_accepted env l req"
  shows "(upload_file env l req st = (Error_response ''Invalid output formats specified'' 400, st, None))
     = (filter (\<lambda>f. f \<in> set OUTPUT_FORMATS) (if formats req = [] then [''stl''] else formats req) = [])"
  using assms
  by (auto simp: upload_file_def Let_def file_accepted_def)

lemma stl_supported: "filter (\<lambda>f. f \<in> set OUTPUT_FORMATS) [''stl''] = [''stl'']"
  by (simp add: OUTPUT_FORMATS_def)

text \<open>
  C2 (as amended). An upload whose list of requested formats is empty is handled
  exactly like one that requests \<open>stl\<close>: the empty list is replaced by this default. A
  job is started only with a non-empty list of supported formats (the supported ones among
  those requested) and a known smoothing level; a rejected upload leaves the registry
  unchanged and starts no job. An upload with an acceptable file is rejected for its
  formats, before any job is started, exactly when it requests at least one format and
  none of the requested formats is supported.
\<close>

theorem upload_formats_validation:
  "upload_file env l (req\<lparr>formats := []\<rparr>) st = upload_file env l (req\<lparr>formats := [''stl'']\<rparr>) st \<and>
   (\<forall>resp st' cid ip vf lv. upload_file env l req st = (resp, st', Some (cid, ip, vf, lv)) \<longrightarrow>
      vf \<noteq> [] \<and> set vf \<subseteq> set OUTPUT_FORMATS \<and>
      vf = filter (\<lambda>f. f \<in> set OUTPUT_FORMATS) (if formats req = [] then [''stl''] else formats req) \<and>
      lv \<in> set SMOOTHING_LEVELS \<and> file_accepted env l req) \<and>
   (\<forall>resp st'. upload_file env l req st = (resp, st', None) \<longrightarrow>
      st' = st \<and> (\<exists>msg code. resp = Error_response msg code)) \<and>
   (file_accepted env l req \<longrightarrow>
      (upload_file env l req st = (Error_response ''Invalid output formats specified'' 400, st, None)) =
      (formats req \<noteq> [] \<and> (\<forall>f \<in> set (formats req). f \<notin> set OUTPUT_FORMATS)))"
proof -
  note a = upload_empty_default [of env l req st]
  have b: "\<forall>resp st' cid ip vf lv. upload_file env l req st = (resp, st', Some (cid, ip, vf, lv)) \<longrightarrow>
      vf \<noteq> [] \<and> set vf \<subseteq> set OUTPUT_FORMATS \<and>
      vf = filter (\<lambda>f. f \<in> set OUTPUT_FORMATS) (if formats req = [] then [''stl''] else formats req) \<and>
      lv \<in> set SMOOTHING_LEVELS \<and> file_accepted env l req"
    using upload_started [of env l req st] by blast
  have c: "\<forall>resp st'. upload_file env l req st = (resp, st', None) \<longrightarrow>
      st' = st \<and> (\<exists>msg code. resp = Error_response msg code)"
    using upload_rejected [of env l req st] by blast
  have d: "file_accepted env l req \<longrightarrow>
      (upload_file env l req st = (Error_response ''Invalid output formats specified'' 400, st, None)) =
      (formats req \<noteq> [] \<and> (\<forall>f \<in> set (formats req). f \<notin> set OUTPUT_FORMATS))"
  proof
    assume acc: "file_accepted env l req"
    show "(upload_file env l req st = (Error_response ''Invalid output formats specified'' 400, st, None)) =
      (formats req \<noteq> [] \<and> (\<forall>f \<in> set (formats req). f \<notin> set OUTPUT_FORMATS))"
      unfolding upload_invalid_formats [OF acc]
      by (auto simp: filter_empty_conv OUTPUT_FORMATS_def)
  qed
  from a b c d show ?thesis by blast
qed

lemma demo_allowed: "allowed_file ''plates.ply''"
  by (simp add: allowed_file_def rsplit_last_def lower_char_def ALLOWED_EXTENSIONS_def)

text \<open>
  C2 as stated fails: an upload of \<open>plates.ply\<close> with no requested format is accepted,
  registered, and a job for the format \<open>stl\<close> is started.
\<close>

theorem empty_formats_counterexample:
  "upload_file demo_env demo_lib
     \<lparr>has_file = True, filename = ''plates.ply'', formats = [], smoothing = None\<rparr> empty_state =
   (Started_response ''job1'' ''plates.ply'' [''stl''] ''medium'', registered_state,
    Some (''job1'', ''uploads/job1_plates.ply'', [''stl''], ''medium''))"
  by (simp add: upload_file_def demo_allowed demo_env_def demo_sel Let_def
      OUTPUT_FORMATS_def SMOOTHING_LEVELS_def registered_state_def empty_state_def)

theorem upload_formats_validation_witness:
  "upload_file demo_env demo_lib
     \<lparr>has_file = True, filename = ''plates.ply'', formats = [''xyz'', ''ply''], smoothing = Some ''ultra''\<rparr>
     empty_state =
   (Error_response ''Invalid output formats specified'' 400, empty_state, None)"
proof -
  let ?req = "\<lparr>has_file = True, filename = ''plates.ply'', formats = [''xyz'', ''ply''],
      smoothing = Some ''ultra''\<rparr>"
  have acc: "file_accepted demo_env demo_lib ?req"
    by (simp add: file_accepted_def demo_allowed demo_env_def demo_sel)
  have "formats ?req \<noteq> [] \<and> (\<forall>f \<in> set (formats ?req). f \<notin> set OUTPUT_FORMATS)"
    by (simp add: OUTPUT_FORMATS_def)
  with upload_formats_validation [of demo_env demo_lib ?req empty_state] acc
  show ?thesis by blast
qed

end
